theory Spec2Isabelle
  imports Main "HOL-Library.Sublist"
begin

section \<open>Go values used by the mock MySQL builder\<close>

text \<open>
  A Go \<open>error\<close> is either a plain message (\<open>errors.New\<close>, \<open>fmt.Errorf\<close> without
  \<open>%w\<close>) or a message together with the error it wraps (\<open>fmt.Errorf\<close> with \<open>%w\<close>).
  \<open>Error\<close> is the method of the same name, \<open>Unwrap\<close> the wrapped error.
\<close>

datatype error = ErrorString string | WrapError string error

fun Error :: "error \<Rightarrow> string" where
  "Error (ErrorString s) = s"
| "Error (WrapError msg e) = msg"

fun Unwrap :: "error \<Rightarrow> error option" where
  "Unwrap (ErrorString s) = None"
| "Unwrap (WrapError msg e) = Some e"

text \<open>\<open>fmt.Errorf(head + "%w", e)\<close>: the message of \<open>e\<close> after \<open>head\<close>, wrapping \<open>e\<close>.\<close>

definition Errorf :: "string \<Rightarrow> error \<Rightarrow> error" where
  "Errorf head e = WrapError (head @ Error e) e"

text \<open>\<open>strconv.Itoa\<close> and the \<open>%d\<close> verb: decimal digits, a minus sign when negative.\<close>

definition digit :: "nat \<Rightarrow> char" where
  "digit d = ''0123456789'' ! d"

fun utoa :: "nat \<Rightarrow> string" where
  "utoa n = (if n < 10 then [digit n] else utoa (n div 10) @ [digit (n mod 10)])"

declare utoa.simps [simp del]

definition Itoa :: "int \<Rightarrow> string" where
  "Itoa i = (if i < 0 then CHR ''-'' # utoa (nat (- i)) else utoa (nat i))"

text \<open>A runtime panic: a nil dereference, or \<open>panic(err)\<close>.\<close>

datatype panic = NilDereference | PanicError error

section \<open>External collaborators\<close>

text \<open>
  The server library, the SQL drivers, the file system and the helpers of this package
  whose source is not at hand (\<open>getFreePort\<close>, \<open>splitSQLStatements\<close>,
  \<open>splitSQLFile\<close>) are parameters of the model, collected in \<open>Env\<close>.
  Every call that \<open>Build\<close> makes outside the builder is written to a trace, in the
  order it is made, so that "this step was not performed" is a statement about the trace.
\<close>

type_synonym listener = nat

record Config =
  Protocol :: string
  Address :: string

datatype Server = Server (ListenerPort: int)

datatype sqlxDB = SqlxDB string
datatype sqlDB = SqlDB string

text \<open>
  The result of \<open>getFreePort()\<close>, a triple \<open>(net.Listener, int, error)\<close>: with an
  error there is no listener to close, without one there is.
\<close>

datatype probe = ProbeErr int error | ProbeOk listener int

datatype event =
    EvGetFreePort
  | EvListenerClose listener
  | EvNewServer string Config
  | EvServerStart Server
  | EvSqlxConnect string
  | EvSqlxPing string
  | EvSqlOpen string
  | EvSqlPing string
  | EvSplitSQLFile string
  | EvExec string
  | EvLog string

record Env =
  osIsNotExist :: "string \<Rightarrow> bool"
  getFreePort :: probe
  NewServer :: "string \<Rightarrow> Config \<Rightarrow> error + Server"
  serverStart :: "Server \<Rightarrow> error option"
  sqlxConnect :: "string \<Rightarrow> error option"
  sqlxPing :: "string \<Rightarrow> error option"
  sqlOpen :: "string \<Rightarrow> error option"
  sqlPing :: "string \<Rightarrow> error option"
  splitSQLStatements :: "string \<Rightarrow> error + string list"
  splitSQLFile :: "string \<Rightarrow> error + string list"
  dbExec :: "event list \<Rightarrow> string \<Rightarrow> error option"

text \<open>
  \<open>osIsNotExist env file\<close> is \<open>os.IsNotExist(err)\<close> for the error of \<open>os.Stat(file)\<close>.
  \<open>dbExec env t stmt\<close> is the error of \<open>b.sqlDB.Exec(stmt)\<close> after the calls in
  \<open>t\<close> have been made: whether a statement fails may depend on everything executed
  before it.

  \<open>trace\<close> is the sequence of outside calls made so far. \<open>goPanics\<close> collects the panics
  raised on goroutines other than the caller's. Such a panic ends the process at a
  moment the caller does not control; the model records that it was raised and,
  apart from it, what the calling goroutine computes.
\<close>

record World =
  trace :: "event list"
  goPanics :: "panic list"

definition emit :: "event \<Rightarrow> World \<Rightarrow> World" where
  "emit ev w = w\<lparr>trace := trace w @ [ev]\<rparr>"

definition raise :: "panic \<Rightarrow> World \<Rightarrow> World" where
  "raise p w = w\<lparr>goPanics := goPanics w @ [p]\<rparr>"

text \<open>\<open>log.Print\<close>.\<close>

definition logPrint :: "string \<Rightarrow> World \<Rightarrow> World" where
  "logPrint msg w = emit (EvLog msg) w"

section \<open>The builder\<close>

record MockBuilder =
  dbName :: string
  port :: int
  server :: "Server option"
  sqlDB :: "sqlDB option"
  sqlxDB :: "sqlxDB option"
  err :: "error option"
  started :: bool
  sqlStmts :: "string list"
  sqlFiles :: "string list"

text \<open>\<open>Builder(db ...string)\<close>; \<open>uuid\<close> is the value of \<open>uuid.NewString()\<close>.\<close>

definition Builder :: "string \<Rightarrow> string list \<Rightarrow> MockBuilder" where
  "Builder uuid db =
     \<lparr>dbName = (case db of [] \<Rightarrow> ''test-db-'' @ take 6 uuid | d # _ \<Rightarrow> d),
      port = 0, server = None, sqlDB = None, sqlxDB = None, err = None,
      started = False, sqlStmts = [], sqlFiles = []\<rparr>"

definition Port :: "MockBuilder \<Rightarrow> int \<Rightarrow> MockBuilder" where
  "Port b p = b\<lparr>port := p\<rparr>"

definition GetPort :: "MockBuilder \<Rightarrow> panic + int" where
  "GetPort b =
     (if port b = 0
      then (case server b of None \<Rightarrow> Inl NilDereference | Some s \<Rightarrow> Inr (ListenerPort s))
      else Inr (port b))"

definition SQLStmts :: "MockBuilder \<Rightarrow> string list \<Rightarrow> MockBuilder" where
  "SQLStmts b stmts = b\<lparr>sqlStmts := sqlStmts b @ stmts\<rparr>"

text \<open>The loop of \<open>SQLFiles\<close>: the first path for which \<open>os.Stat\<close> says "not exist".\<close>

fun statFiles :: "Env \<Rightarrow> string list \<Rightarrow> string option" where
  "statFiles env [] = None"
| "statFiles env (file # files) =
     (if osIsNotExist env file then Some file else statFiles env files)"

definition SQLFiles :: "Env \<Rightarrow> MockBuilder \<Rightarrow> string list \<Rightarrow> MockBuilder" where
  "SQLFiles env b files =
     (case statFiles env files of
        Some file \<Rightarrow> b\<lparr>err := Some (ErrorString (''sql file '' @ file @ '' not exist''))\<rparr>
      | None \<Rightarrow> b\<lparr>sqlFiles := sqlFiles b @ files\<rparr>)"

subsection \<open>Server and client construction\<close>

definition createMySQLServer ::
  "Env \<Rightarrow> string \<Rightarrow> int \<Rightarrow> World \<Rightarrow> (Server option \<times> error option) \<times> World" where
  "createMySQLServer env name p w =
     (let config = \<lparr>Protocol = ''tcp'', Address = ''127.0.0.1:'' @ Itoa p\<rparr>;
          w' = emit (EvNewServer name config) w
      in case NewServer env name config of
           Inl e \<Rightarrow> ((None, Some (Errorf ''failed to create server: '' e)), w')
         | Inr s \<Rightarrow> ((Some s, None), w'))"

definition initServer :: "Env \<Rightarrow> MockBuilder \<Rightarrow> World \<Rightarrow> MockBuilder \<times> World" where
  "initServer env b w =
     (if err b \<noteq> None then (b, w)
      else case createMySQLServer env (dbName b) (port b) w of
             ((s, e), w') \<Rightarrow> (b\<lparr>server := s, err := e\<rparr>, w'))"

definition createMySQLClient ::
  "Env \<Rightarrow> int \<Rightarrow> string \<Rightarrow> World \<Rightarrow> (sqlxDB option \<times> sqlDB option \<times> error option) \<times> World" where
  "createMySQLClient env p name w =
     (let dsn = ''root:@tcp(127.0.0.1:'' @ Itoa p @ '')/'' @ name;
          w1 = emit (EvSqlxConnect dsn) w
      in case sqlxConnect env dsn of
           Some e \<Rightarrow>
             ((None, None, Some (Errorf ''failed to connect sqlx client: '' e)), w1)
         | None \<Rightarrow>
      let w2 = emit (EvSqlxPing dsn) w1
      in case sqlxPing env dsn of
           Some e \<Rightarrow> ((None, None, Some (Errorf ''failed to ping sqlx: '' e)), w2)
         | None \<Rightarrow>
      let w3 = emit (EvSqlOpen dsn) w2
      in case sqlOpen env dsn of
           Some e \<Rightarrow>
             ((None, None, Some (Errorf ''failed to connect sql client: '' e)), w3)
         | None \<Rightarrow>
      let w4 = emit (EvSqlPing dsn) w3
      in case sqlPing env dsn of
           Some e \<Rightarrow> ((None, None, Some (Errorf ''failed to ping sql: '' e)), w4)
         | None \<Rightarrow> ((Some (SqlxDB dsn), Some (SqlDB dsn), None), w4))"

subsection \<open>Seeding\<close>

text \<open>
  \<open>executeSQLStatements\<close>, \<open>initWithStmts\<close> and \<open>initWithFiles\<close> are private and only
  called by \<open>Build\<close> after \<open>createMySQLClient\<close> has returned without error, so the
  receiver \<open>b.sqlDB\<close> of \<open>Exec\<close> is not nil there.
\<close>

definition execError :: "string \<Rightarrow> error \<Rightarrow> error" where
  "execError stmt e =
     Errorf (''failed to exec sql stmt '' @ [CHR 0x27] @ stmt @ [CHR 0x27] @ '': '') e"

fun executeSQLStatements :: "Env \<Rightarrow> string list \<Rightarrow> World \<Rightarrow> error option \<times> World" where
  "executeSQLStatements env [] w = (None, w)"
| "executeSQLStatements env (stmt # stmts) w =
     (case dbExec env (trace w) stmt of
        Some e \<Rightarrow> (Some (execError stmt e), emit (EvExec stmt) w)
      | None \<Rightarrow> executeSQLStatements env stmts (emit (EvExec stmt) w))"

text \<open>The \<open>for\<close> loop of \<open>initWithStmts\<close>; the result is the error it stores in \<open>b.err\<close>.\<close>

fun stmtsLoop :: "Env \<Rightarrow> string list \<Rightarrow> World \<Rightarrow> error option \<times> World" where
  "stmtsLoop env [] w = (None, w)"
| "stmtsLoop env (stmt # rest) w =
     (case splitSQLStatements env stmt of
        Inl e \<Rightarrow> (Some e, w)
      | Inr stmts \<Rightarrow>
          (case executeSQLStatements env stmts w of
             (Some e, w') \<Rightarrow> (Some e, w')
           | (None, w') \<Rightarrow> stmtsLoop env rest w'))"

definition initWithStmts :: "Env \<Rightarrow> MockBuilder \<Rightarrow> World \<Rightarrow> MockBuilder \<times> World" where
  "initWithStmts env b w =
     (if err b \<noteq> None \<or> length (sqlStmts b) = 0 then (b, w)
      else
        let w1 = logPrint (''start to init data with sql stmts, count = ''
                               @ Itoa (int (length (sqlStmts b)))) w
        in case stmtsLoop env (sqlStmts b) w1 of
             (Some e, w2) \<Rightarrow> (b\<lparr>err := Some e\<rparr>, w2)
           | (None, w2) \<Rightarrow>
               (b, logPrint (''init data with sql stmts successfully, count = ''
                               @ Itoa (int (length (sqlStmts b)))) w2))"

text \<open>The \<open>for\<close> loop of \<open>initWithFiles\<close>.\<close>

definition splitFileError :: "string \<Rightarrow> error \<Rightarrow> error" where
  "splitFileError file e =
     Errorf (''failed to split sql file '' @ [CHR 0x27] @ file @ [CHR 0x27] @ '': '') e"

fun filesLoop :: "Env \<Rightarrow> string list \<Rightarrow> World \<Rightarrow> error option \<times> World" where
  "filesLoop env [] w = (None, w)"
| "filesLoop env (file # rest) w =
     (case splitSQLFile env file of
        Inl e \<Rightarrow> (Some (splitFileError file e), emit (EvSplitSQLFile file) w)
      | Inr stmts \<Rightarrow>
          (case executeSQLStatements env stmts (emit (EvSplitSQLFile file) w) of
             (Some e, w') \<Rightarrow> (Some e, w')
           | (None, w') \<Rightarrow> filesLoop env rest w'))"

definition initWithFiles :: "Env \<Rightarrow> MockBuilder \<Rightarrow> World \<Rightarrow> MockBuilder \<times> World" where
  "initWithFiles env b w =
     (if err b \<noteq> None \<or> length (sqlFiles b) = 0 then (b, w)
      else
        let w1 = logPrint (''start to init data with sql files, count = ''
                               @ Itoa (int (length (sqlFiles b)))) w
        in case filesLoop env (sqlFiles b) w1 of
             (Some e, w2) \<Rightarrow> (b\<lparr>err := Some e\<rparr>, w2)
           | (None, w2) \<Rightarrow>
               (b, logPrint (''init data with sql files successfully, count = ''
                               @ Itoa (int (length (sqlFiles b)))) w2))"

subsection \<open>Build\<close>

text \<open>
  \<open>Build\<close> returns \<open>(*sqlx.DB, *sql.DB, func(), error)\<close>: either \<open>nil, nil, nil, err\<close>
  (\<open>Inl err\<close>) or the two handles and the shutdown closure (\<open>Inr\<close>). The closure closes
  \<open>b.server\<close>; it is represented by that server.
\<close>

type_synonym handles = "sqlxDB option \<times> sqlDB option \<times> Server option"

text \<open>\<open>atomic.Bool.CompareAndSwap\<close>: the new value of the flag, and whether it swapped.\<close>

definition CompareAndSwap :: "bool \<Rightarrow> bool \<Rightarrow> bool \<Rightarrow> bool \<times> bool" where
  "CompareAndSwap cur old new = (if cur = old then (new, True) else (cur, False))"

text \<open>The \<open>go func() { if err := b.server.Start(); err != nil { panic(err) } }()\<close> statement.\<close>

definition goStart :: "Env \<Rightarrow> MockBuilder \<Rightarrow> World \<Rightarrow> World" where
  "goStart env b w =
     (case server b of
        None \<Rightarrow> raise NilDereference w
      | Some s \<Rightarrow>
          (case serverStart env s of
             Some e \<Rightarrow> raise (PanicError e) (emit (EvServerStart s) w)
           | None \<Rightarrow> emit (EvServerStart s) w))"

text \<open>From "Create client and connect to server" to the end of \<open>Build\<close>.\<close>

definition buildClient ::
  "Env \<Rightarrow> MockBuilder \<Rightarrow> World \<Rightarrow> (error + handles) \<times> MockBuilder \<times> World" where
  "buildClient env b w =
     (case createMySQLClient env (port b) (dbName b) w of
        ((x, d, Some e), w1) \<Rightarrow>
          (let e' = Errorf ''failed to create sql client: '' e;
               b1 = b\<lparr>sqlxDB := x, sqlDB := d, err := Some e'\<rparr>
           in (Inl e', b1, w1))
      | ((x, d, None), w1) \<Rightarrow>
          (let b1 = b\<lparr>sqlxDB := x, sqlDB := d\<rparr>;
               (b2, w2) = initWithStmts env b1 w1;
               (b3, w3) = initWithFiles env b2 w2
           in case err b3 of
                Some e \<Rightarrow> (Inl e, b3, w3)
              | None \<Rightarrow> (Inr (sqlxDB b3, sqlDB b3, server b3), b3, w3)))"

text \<open>From "Init mysql server" to the end of \<open>Build\<close>.\<close>

definition buildServer ::
  "Env \<Rightarrow> MockBuilder \<Rightarrow> World \<Rightarrow> (error + handles) \<times> MockBuilder \<times> World" where
  "buildServer env b w =
     (let (b1, w1) = initServer env b w
      in case err b1 of
           Some e \<Rightarrow> (Inl e, b1, w1)
         | None \<Rightarrow>
             (let w2 = logPrint (''start go mysql mocker server, listening at 127.0.0.1:''
                               @ Itoa (port b1)) w1;
                  w3 = goStart env b1 w2
              in buildClient env b1 w3))"

definition Build ::
  "Env \<Rightarrow> MockBuilder \<Rightarrow> World \<Rightarrow> (error + handles) \<times> MockBuilder \<times> World" where
  "Build env b w =
     (case err b of
        Some e \<Rightarrow> (Inl e, b, w)
      | None \<Rightarrow>
          (case CompareAndSwap (started b) False True of
             (flag, False) \<Rightarrow>
               (Inl (ErrorString ''mysql server already started''), b\<lparr>started := flag\<rparr>, w)
           | (flag, True) \<Rightarrow>
               (let b1 = b\<lparr>started := flag\<rparr>
                in if port b1 = 0
                   then (case getFreePort env of
                           ProbeErr p e \<Rightarrow>
                             (Inl e, b1\<lparr>port := p, err := Some e\<rparr>, emit EvGetFreePort w)
                         | ProbeOk l p \<Rightarrow>
                             buildServer env (b1\<lparr>port := p, err := None\<rparr>)
                               (emit (EvListenerClose l) (emit EvGetFreePort w)))
                   else buildServer env b1 w)))"

section \<open>Traces, call sequences and sample inputs\<close>

text \<open>The statements executed in a trace, in order.\<close>

fun execOf :: "event \<Rightarrow> string list" where
  "execOf (EvExec stmt) = [stmt]"
| "execOf ev = []"

definition execs :: "event list \<Rightarrow> string list" where
  "execs t = concat (map execOf t)"

text \<open>What a splitter yields for one registered item (nothing when it fails).\<close>

definition splitOf :: "('a \<Rightarrow> error + string list) \<Rightarrow> 'a \<Rightarrow> string list" where
  "splitOf split x = (case split x of Inl e \<Rightarrow> [] | Inr stmts \<Rightarrow> stmts)"

text \<open>
  The error that \<open>Build\<close> hands back when the outside call \<open>ev\<close>, made after the calls
  in \<open>t\<close>, fails; \<open>None\<close> when the call succeeds or its failure is not handed back.
\<close>

fun reported :: "Env \<Rightarrow> event list \<Rightarrow> event \<Rightarrow> error option" where
  "reported env t EvGetFreePort =
     (case getFreePort env of ProbeErr p e \<Rightarrow> Some e | ProbeOk l p \<Rightarrow> None)"
| "reported env t (EvNewServer name config) =
     (case NewServer env name config of
        Inl e \<Rightarrow> Some (Errorf ''failed to create server: '' e)
      | Inr s \<Rightarrow> None)"
| "reported env t (EvSqlxConnect dsn) =
     map_option (\<lambda>e. Errorf ''failed to create sql client: ''
                       (Errorf ''failed to connect sqlx client: '' e)) (sqlxConnect env dsn)"
| "reported env t (EvSqlxPing dsn) =
     map_option (\<lambda>e. Errorf ''failed to create sql client: ''
                       (Errorf ''failed to ping sqlx: '' e)) (sqlxPing env dsn)"
| "reported env t (EvSqlOpen dsn) =
     map_option (\<lambda>e. Errorf ''failed to create sql client: ''
                       (Errorf ''failed to connect sql client: '' e)) (sqlOpen env dsn)"
| "reported env t (EvSqlPing dsn) =
     map_option (\<lambda>e. Errorf ''failed to create sql client: ''
                       (Errorf ''failed to ping sql: '' e)) (sqlPing env dsn)"
| "reported env t (EvSplitSQLFile file) =
     (case splitSQLFile env file of Inl e \<Rightarrow> Some (splitFileError file e) | Inr stmts \<Rightarrow> None)"
| "reported env t (EvExec stmt) = map_option (execError stmt) (dbExec env t stmt)"
| "reported env t (EvListenerClose l) = None"
| "reported env t (EvServerStart s) = None"
| "reported env t (EvLog msg) = None"

text \<open>The panics raised by the \<open>Start\<close> calls of a trace.\<close>

fun startPanic :: "Env \<Rightarrow> event \<Rightarrow> panic list" where
  "startPanic env (EvServerStart s) =
     (case serverStart env s of Some e \<Rightarrow> [PanicError e] | None \<Rightarrow> [])"
| "startPanic env ev = []"

definition startPanics :: "Env \<Rightarrow> event list \<Rightarrow> panic list" where
  "startPanics env t = concat (map (startPanic env) t)"

text \<open>
  \<open>failLast env t new r\<close>: in the calls \<open>new\<close> made after \<open>t\<close>, a call whose failure is
  handed back is the last one, and \<open>r\<close> is its error. \<open>extends env w r w'\<close>: the world
  \<open>w'\<close> is \<open>w\<close> after such calls, with the panics of their \<open>Start\<close> calls.
\<close>

definition failLast :: "Env \<Rightarrow> event list \<Rightarrow> event list \<Rightarrow> error option \<Rightarrow> bool" where
  "failLast env t new r \<longleftrightarrow>
     (\<forall>t1 ev t2 e. new = t1 @ ev # t2 \<and> reported env (t @ t1) ev = Some e
        \<longrightarrow> t2 = [] \<and> r = Some e)"

definition extends :: "Env \<Rightarrow> World \<Rightarrow> error option \<Rightarrow> World \<Rightarrow> bool" where
  "extends env w r w' \<longleftrightarrow>
     (\<exists>new. trace w' = trace w @ new \<and> failLast env (trace w) new r
        \<and> goPanics w' = goPanics w @ startPanics env new)"

definition errOf :: "(error + handles) \<Rightarrow> error option" where
  "errOf r = (case r of Inl e \<Rightarrow> Some e | Inr h \<Rightarrow> None)"

text \<open>A sequence of configuration calls on one builder.\<close>

datatype call = CallPort int | CallSQLStmts "string list" | CallSQLFiles Env "string list"

fun applyCall :: "MockBuilder \<Rightarrow> call \<Rightarrow> MockBuilder" where
  "applyCall b (CallPort p) = Port b p"
| "applyCall b (CallSQLStmts stmts) = SQLStmts b stmts"
| "applyCall b (CallSQLFiles env files) = SQLFiles env b files"

definition configure :: "MockBuilder \<Rightarrow> call list \<Rightarrow> MockBuilder" where
  "configure b calls = foldl applyCall b calls"

text \<open>The returned error and the sticky error agree.\<close>

definition consistent :: "(error + handles) \<Rightarrow> MockBuilder \<Rightarrow> bool" where
  "consistent r b = (case r of Inl e \<Rightarrow> err b = Some e | Inr h \<Rightarrow> err b = None)"

text \<open>
  Sample inputs: an environment in which every call succeeds except \<open>Exec\<close> of the
  statement \<open>BAD\<close>, variants of it, builders made with the public calls, and the
  results of running \<open>Build\<close> on them.
\<close>

definition envDemo :: Env where
  "envDemo =
     \<lparr>osIsNotExist = (\<lambda>f. f = ''missing.sql'' \<or> f = ''gone.sql''),
      getFreePort = ProbeOk 7 40123,
      NewServer = (\<lambda>name config.
         Inr (Server (if Address config = ''127.0.0.1:3306'' then 3306 else 40123))),
      serverStart = (\<lambda>s. None),
      sqlxConnect = (\<lambda>dsn. None),
      sqlxPing = (\<lambda>dsn. None),
      sqlOpen = (\<lambda>dsn. None),
      sqlPing = (\<lambda>dsn. None),
      splitSQLStatements = (\<lambda>s. Inr [s]),
      splitSQLFile = (\<lambda>f. Inr [''INSERT INTO t VALUES (3);'', ''INSERT INTO t VALUES (4);'']),
      dbExec = (\<lambda>t stmt. if stmt = ''BAD'' then Some (ErrorString ''syntax error'') else None)\<rparr>"

definition demoWorld :: World where
  "demoWorld = \<lparr>trace = [], goPanics = []\<rparr>"

definition demoBuilder :: MockBuilder where
  "demoBuilder =
     SQLFiles envDemo
       (SQLStmts (Builder ''9f1c2ab4-7d3e-4c55-8a10-52e6b1f0c9aa'' [''shop''])
          [''INSERT INTO t VALUES (1);'', ''INSERT INTO t VALUES (2);''])
       [''seed.sql'']"

definition stuckBuilder :: MockBuilder where
  "stuckBuilder =
     SQLFiles envDemo (Builder ''9f1c2ab4-7d3e-4c55-8a10-52e6b1f0c9aa'' [])
       [''a.sql'', ''missing.sql'']"

definition demoBuilt :: MockBuilder where
  "demoBuilt = \<lparr>dbName = ''shop'', port = 40123, server = Some (Server 40123),
     sqlDB = Some (SqlDB ''root:@tcp(127.0.0.1:40123)/shop''),
     sqlxDB = Some (SqlxDB ''root:@tcp(127.0.0.1:40123)/shop''), err = None,
     started = True,
     sqlStmts = [''INSERT INTO t VALUES (1);'', ''INSERT INTO t VALUES (2);''],
     sqlFiles = [''seed.sql'']\<rparr>"

definition demoTrace :: "event list" where
  "demoTrace =
     [EvGetFreePort, EvListenerClose 7,
      EvNewServer ''shop'' \<lparr>Protocol = ''tcp'', Address = ''127.0.0.1:40123''\<rparr>,
      EvLog ''start go mysql mocker server, listening at 127.0.0.1:40123'',
      EvServerStart (Server 40123),
      EvSqlxConnect ''root:@tcp(127.0.0.1:40123)/shop'',
      EvSqlxPing ''root:@tcp(127.0.0.1:40123)/shop'',
      EvSqlOpen ''root:@tcp(127.0.0.1:40123)/shop'',
      EvSqlPing ''root:@tcp(127.0.0.1:40123)/shop'',
      EvLog ''start to init data with sql stmts, count = 2'',
      EvExec ''INSERT INTO t VALUES (1);'',
      EvExec ''INSERT INTO t VALUES (2);'',
      EvLog ''init data with sql stmts successfully, count = 2'',
      EvLog ''start to init data with sql files, count = 1'',
      EvSplitSQLFile ''seed.sql'', EvExec ''INSERT INTO t VALUES (3);'',
      EvExec ''INSERT INTO t VALUES (4);'',
      EvLog ''init data with sql files successfully, count = 1'']"

definition demoBuiltWorld :: World where
  "demoBuiltWorld = \<lparr>trace = demoTrace, goPanics = []\<rparr>"

definition envNoClient :: Env where
  "envNoClient = envDemo\<lparr>sqlxPing := (\<lambda>dsn. Some (ErrorString ''connection refused''))\<rparr>"

definition unreachableError :: error where
  "unreachableError =
     Errorf ''failed to create sql client: ''
       (Errorf ''failed to ping sqlx: '' (ErrorString ''connection refused''))"

definition unreachableBuilt :: MockBuilder where
  "unreachableBuilt = \<lparr>dbName = ''shop'', port = 40123, server = Some (Server 40123),
     sqlDB = None, sqlxDB = None, err = Some unreachableError, started = True,
     sqlStmts = [''INSERT INTO t VALUES (1);'', ''INSERT INTO t VALUES (2);''],
     sqlFiles = [''seed.sql'']\<rparr>"

definition unreachableWorld :: World where
  "unreachableWorld = \<lparr>trace = take 7 demoTrace, goPanics = []\<rparr>"

definition envStartFails :: Env where
  "envStartFails = envDemo\<lparr>serverStart := (\<lambda>s. Some (ErrorString ''address already in use''))\<rparr>"

definition failingBuilder :: MockBuilder where
  "failingBuilder =
     SQLFiles envDemo
       (SQLStmts (Port (Builder ''9f1c2ab4-7d3e-4c55-8a10-52e6b1f0c9aa'' [''shop'']) 3306)
          [''INSERT INTO t VALUES (1);'', ''BAD'', ''INSERT INTO t VALUES (2);''])
       [''seed.sql'']"

definition failingPrefix :: "event list" where
  "failingPrefix =
     [EvNewServer ''shop'' \<lparr>Protocol = ''tcp'', Address = ''127.0.0.1:3306''\<rparr>,
      EvLog ''start go mysql mocker server, listening at 127.0.0.1:3306'',
      EvServerStart (Server 3306),
      EvSqlxConnect ''root:@tcp(127.0.0.1:3306)/shop'',
      EvSqlxPing ''root:@tcp(127.0.0.1:3306)/shop'',
      EvSqlOpen ''root:@tcp(127.0.0.1:3306)/shop'',
      EvSqlPing ''root:@tcp(127.0.0.1:3306)/shop'',
      EvLog ''start to init data with sql stmts, count = 3'',
      EvExec ''INSERT INTO t VALUES (1);'']"

definition failingBuilt :: MockBuilder where
  "failingBuilt = \<lparr>dbName = ''shop'', port = 3306, server = Some (Server 3306),
     sqlDB = Some (SqlDB ''root:@tcp(127.0.0.1:3306)/shop''),
     sqlxDB = Some (SqlxDB ''root:@tcp(127.0.0.1:3306)/shop''),
     err = Some (execError ''BAD'' (ErrorString ''syntax error'')), started = True,
     sqlStmts = [''INSERT INTO t VALUES (1);'', ''BAD'', ''INSERT INTO t VALUES (2);''],
     sqlFiles = [''seed.sql'']\<rparr>"

definition envNoServer :: Env where
  "envNoServer =
     envDemo\<lparr>NewServer := (\<lambda>name config. Inl (ErrorString ''address already in use''))\<rparr>"

definition noServerError :: error where
  "noServerError = Errorf ''failed to create server: '' (ErrorString ''address already in use'')"

definition noServerBuilt :: MockBuilder where
  "noServerBuilt = \<lparr>dbName = ''shop'', port = 40123, server = None,
     sqlDB = None, sqlxDB = None, err = Some noServerError, started = True,
     sqlStmts = [''INSERT INTO t VALUES (1);'', ''INSERT INTO t VALUES (2);''],
     sqlFiles = [''seed.sql'']\<rparr>"

definition noServerWorld :: World where
  "noServerWorld = \<lparr>trace = take 3 demoTrace, goPanics = []\<rparr>"

section \<open>Properties\<close>

subsection \<open>Worlds, paths and call sequences\<close>

lemma trace_emit [simp]: "trace (emit ev w) = trace w @ [ev]"
  by (simp add: emit_def)

lemma goPanics_emit [simp]: "goPanics (emit ev w) = goPanics w"
  by (simp add: emit_def)

lemma trace_raise [simp]: "trace (raise p w) = trace w"
  by (simp add: raise_def)

lemma goPanics_raise [simp]: "goPanics (raise p w) = goPanics w @ [p]"
  by (simp add: raise_def)

lemma trace_logPrint [simp]: "trace (logPrint msg w) = trace w @ [EvLog msg]"
  by (simp add: logPrint_def)

lemma goPanics_logPrint [simp]: "goPanics (logPrint msg w) = goPanics w"
  by (simp add: logPrint_def)

lemma statFiles_None: "statFiles env files = None \<longleftrightarrow> (\<forall>f \<in> set files. \<not> osIsNotExist env f)"
  by (induction files) auto

lemma statFiles_Some:
  "statFiles env files = Some f \<longleftrightarrow>
     (\<exists>pre post. files = pre @ f # post \<and> (\<forall>g \<in> set pre. \<not> osIsNotExist env g) \<and> osIsNotExist env f)"
proof (induction files)
  case Nil
  then show ?case by simp
next
  case (Cons a files)
  show ?case
  proof (cases "osIsNotExist env a")
    case True
    have "(\<exists>pre post. a # files = pre @ f # post \<and> (\<forall>g \<in> set pre. \<not> osIsNotExist env g) \<and> osIsNotExist env f) \<longleftrightarrow> a = f"
    proof
      assume "\<exists>pre post. a # files = pre @ f # post \<and> (\<forall>g \<in> set pre. \<not> osIsNotExist env g) \<and> osIsNotExist env f"
      then obtain pre post where p: "a # files = pre @ f # post" "\<forall>g \<in> set pre. \<not> osIsNotExist env g" by blast
      show "a = f"
      proof (cases pre)
        case Nil
        with p show ?thesis by simp
      next
        case (Cons x xs)
        with p True show ?thesis by auto
      qed
    next
      assume "a = f"
      with True have "a # files = [] @ f # files \<and> (\<forall>g \<in> set []. \<not> osIsNotExist env g) \<and> osIsNotExist env f" by simp
      then show "\<exists>pre post. a # files = pre @ f # post \<and> (\<forall>g \<in> set pre. \<not> osIsNotExist env g) \<and> osIsNotExist env f" by blast
    qed
    with True show ?thesis by simp
  next
    case False
    have "(\<exists>pre post. a # files = pre @ f # post \<and> (\<forall>g \<in> set pre. \<not> osIsNotExist env g) \<and> osIsNotExist env f) \<longleftrightarrow>
          (\<exists>pre post. files = pre @ f # post \<and> (\<forall>g \<in> set pre. \<not> osIsNotExist env g) \<and> osIsNotExist env f)"
      (is "?L \<longleftrightarrow> ?R")
    proof
      assume ?L
      then obtain pre post where p: "a # files = pre @ f # post" "\<forall>g \<in> set pre. \<not> osIsNotExist env g" "osIsNotExist env f" by blast
      show ?R
      proof (cases pre)
        case Nil
        with p False show ?thesis by simp
      next
        case (Cons x xs)
        with p have "files = xs @ f # post \<and> (\<forall>g \<in> set xs. \<not> osIsNotExist env g) \<and> osIsNotExist env f" by simp
        then show ?thesis by blast
      qed
    next
      assume ?R
      then obtain pre post where p: "files = pre @ f # post" "\<forall>g \<in> set pre. \<not> osIsNotExist env g" "osIsNotExist env f" by blast
      with False have "a # files = (a # pre) @ f # post \<and> (\<forall>g \<in> set (a # pre). \<not> osIsNotExist env g) \<and> osIsNotExist env f" by simp
      then show ?L by blast
    qed
    with False Cons.IH show ?thesis by simp
  qed
qed

lemma applyCall_started: "started (applyCall b c) = started b"
  by (cases c) (auto simp: Port_def SQLStmts_def SQLFiles_def split: option.splits)

lemma applyCall_server: "server (applyCall b c) = server b"
  by (cases c) (auto simp: Port_def SQLStmts_def SQLFiles_def split: option.splits)

lemma applyCall_err: "err b \<noteq> None \<Longrightarrow> err (applyCall b c) \<noteq> None"
  by (cases c) (auto simp: Port_def SQLStmts_def SQLFiles_def split: option.splits)

lemma configure_started: "started (configure b calls) = started b"
  unfolding configure_def by (induction calls arbitrary: b) (simp_all add: applyCall_started)

lemma configure_server: "server (configure b calls) = server b"
  unfolding configure_def by (induction calls arbitrary: b) (simp_all add: applyCall_server)

lemma configure_err: "err b \<noteq> None \<Longrightarrow> err (configure b calls) \<noteq> None"
  unfolding configure_def
proof (induction calls arbitrary: b)
  case Nil
  then show ?case by simp
next
  case (Cons c calls)
  from Cons.prems have "err (applyCall b c) \<noteq> None" by (rule applyCall_err)
  from Cons.IH [OF this] show ?case by simp
qed

lemma Builder_server: "server (Builder uuid db) = None"
  by (simp add: Builder_def)

subsection \<open>Sample runs\<close>

text \<open>
  Four runs of \<open>Build\<close>, evaluated: a successful one on an automatically chosen port,
  one where the client cannot reach the server, one where \<open>Start\<close> fails, and one
  where the second literal statement is rejected.
\<close>

lemma Itoa_40123: "Itoa 40123 = ''40123''"
  by (simp add: Itoa_def utoa.simps digit_def)

lemma Itoa_small: "Itoa 1 = ''1''" "Itoa 2 = ''2''" "Itoa 3 = ''3''" "Itoa 3306 = ''3306''"
  by (simp_all add: Itoa_def utoa.simps digit_def)

lemma stuckBuilder_eq:
  "stuckBuilder = (Builder ''9f1c2ab4-7d3e-4c55-8a10-52e6b1f0c9aa'' [])
       \<lparr>err := Some (ErrorString ''sql file missing.sql not exist'')\<rparr>"
  by (simp add: stuckBuilder_def SQLFiles_def envDemo_def)

lemma demoBuilder_eq:
  "demoBuilder = \<lparr>dbName = ''shop'', port = 0, server = None, sqlDB = None, sqlxDB = None,
      err = None, started = False,
      sqlStmts = [''INSERT INTO t VALUES (1);'', ''INSERT INTO t VALUES (2);''],
      sqlFiles = [''seed.sql'']\<rparr>"
  by (simp add: demoBuilder_def SQLFiles_def SQLStmts_def Builder_def envDemo_def)

lemma failingBuilder_eq:
  "failingBuilder = \<lparr>dbName = ''shop'', port = 3306, server = None, sqlDB = None, sqlxDB = None,
      err = None, started = False,
      sqlStmts = [''INSERT INTO t VALUES (1);'', ''BAD'', ''INSERT INTO t VALUES (2);''],
      sqlFiles = [''seed.sql'']\<rparr>"
  by (simp add: failingBuilder_def SQLFiles_def SQLStmts_def Port_def Builder_def envDemo_def)

lemmas evalDefs =
  Build_def CompareAndSwap_def buildServer_def initServer_def createMySQLServer_def goStart_def
  buildClient_def createMySQLClient_def initWithStmts_def initWithFiles_def emit_def raise_def
  logPrint_def Errorf_def execError_def Itoa_40123 Itoa_small Let_def

lemma demoBuild:
  "Build envDemo demoBuilder demoWorld =
     (Inr (sqlxDB demoBuilt, sqlDB demoBuilt, server demoBuilt), demoBuilt, demoBuiltWorld)"
  by (simp add: evalDefs demoBuilder_eq envDemo_def demoWorld_def demoBuilt_def demoTrace_def
        demoBuiltWorld_def)

lemma unreachableBuild:
  "Build envNoClient demoBuilder demoWorld = (Inl unreachableError, unreachableBuilt, unreachableWorld)"
  by (simp add: evalDefs demoBuilder_eq envNoClient_def envDemo_def demoWorld_def
        unreachableError_def unreachableBuilt_def unreachableWorld_def demoTrace_def)

lemma startFailsBuild:
  "Build envStartFails demoBuilder demoWorld =
     (Inr (sqlxDB demoBuilt, sqlDB demoBuilt, server demoBuilt), demoBuilt,
      demoBuiltWorld\<lparr>goPanics := [PanicError (ErrorString ''address already in use'')]\<rparr>)"
  by (simp add: evalDefs demoBuilder_eq envStartFails_def envDemo_def demoWorld_def demoBuilt_def
        demoTrace_def demoBuiltWorld_def)

lemma failingBuild:
  "Build envDemo failingBuilder demoWorld =
     (Inl (execError ''BAD'' (ErrorString ''syntax error'')), failingBuilt,
      \<lparr>trace = failingPrefix @ [EvExec ''BAD''], goPanics = []\<rparr>)"
  by (simp add: evalDefs failingBuilder_eq envDemo_def demoWorld_def failingBuilt_def
        failingPrefix_def)

lemma noServerBuild:
  "Build envNoServer demoBuilder demoWorld = (Inl noServerError, noServerBuilt, noServerWorld)"
  by (simp add: evalDefs demoBuilder_eq envNoServer_def envDemo_def demoWorld_def
        noServerError_def noServerBuilt_def noServerWorld_def demoTrace_def)

subsection \<open>Configuration calls\<close>

text \<open>
  Claim C9. A single \<open>SQLFiles\<close> call is atomic over its batch. If some path of the call
  does not exist, the call stops at the first such path \<open>f\<close> (every path listed before it
  exists), stores the error "sql file \<open>f\<close> not exist" in the sticky error and changes
  nothing else: none of the paths of the call is registered, not even those listed before
  \<open>f\<close>, and the file list is the one before the call.
\<close>

theorem SQLFiles_batch_atomic:
  assumes "\<exists>f \<in> set files. osIsNotExist env f"
  shows "\<exists>pre f post. files = pre @ f # post \<and> (\<forall>g \<in> set pre. \<not> osIsNotExist env g)
           \<and> osIsNotExist env f
           \<and> SQLFiles env b files = b\<lparr>err := Some (ErrorString (''sql file '' @ f @ '' not exist''))\<rparr>
           \<and> sqlFiles (SQLFiles env b files) = sqlFiles b"
proof -
  from assms have "statFiles env files \<noteq> None" by (simp add: statFiles_None)
  then obtain f where f: "statFiles env files = Some f" by blast
  then obtain pre post where p: "files = pre @ f # post" "\<forall>g \<in> set pre. \<not> osIsNotExist env g" "osIsNotExist env f"
    unfolding statFiles_Some by blast
  from f have "SQLFiles env b files = b\<lparr>err := Some (ErrorString (''sql file '' @ f @ '' not exist''))\<rparr>"
    by (simp add: SQLFiles_def)
  with p show ?thesis by auto
qed

theorem SQLFiles_batch_atomic_witness:
  "(\<exists>f \<in> set [''a.sql'', ''missing.sql'']. osIsNotExist envDemo f)
   \<and> sqlFiles stuckBuilder = []
   \<and> err stuckBuilder = Some (ErrorString ''sql file missing.sql not exist'')"
proof -
  have h: "\<exists>f \<in> set [''a.sql'', ''missing.sql'']. osIsNotExist envDemo f"
    by (simp add: envDemo_def)
  from SQLFiles_batch_atomic [OF h, of "Builder ''9f1c2ab4-7d3e-4c55-8a10-52e6b1f0c9aa'' []"]
  show ?thesis using h by (simp add: stuckBuilder_eq Builder_def)
qed

subsection \<open>The two gates of Build\<close>

lemma started_True_upd: "started b \<Longrightarrow> b\<lparr>started := True\<rparr> = b"
  by (cases b) simp

lemma Build_sticky: "err b = Some e \<Longrightarrow> Build env b w = (Inl e, b, w)"
  by (simp add: Build_def)

lemma Build_already_started:
  "err b = None \<Longrightarrow> started b \<Longrightarrow>
   Build env b w = (Inl (ErrorString ''mysql server already started''), b, w)"
  by (simp add: Build_def CompareAndSwap_def)

lemma Build_blocked:
  assumes "err b \<noteq> None \<or> started b"
  shows "\<exists>e. Build env b w = (Inl e, b, w)"
proof (cases "err b")
  case None
  with assms show ?thesis by (simp add: Build_already_started)
next
  case (Some e)
  then show ?thesis by (simp add: Build_sticky)
qed

text \<open>
  Claim C1, as amended. The configuration calls do not look at the sticky error. On a
  builder whose sticky error is set, \<open>Port\<close> still records the port and \<open>SQLStmts\<close> still
  appends its statements, both leaving the sticky error as it is; \<open>SQLFiles\<close> still appends
  its paths when all of them exist, leaving the sticky error as it is, and when one is
  missing it leaves the file list alone and replaces the sticky error by the error for the
  first missing path. After any configuration call the sticky error is still set, and a
  following \<open>Build\<close> returns it and changes neither the builder nor the world.
\<close>

theorem sticky_error_config_calls:
  assumes "err b = Some e"
  shows "port (Port b p) = p \<and> err (Port b p) = Some e
       \<and> sqlStmts (SQLStmts b stmts) = sqlStmts b @ stmts \<and> err (SQLStmts b stmts) = Some e
       \<and> ((\<forall>f \<in> set files. \<not> osIsNotExist env f) \<longrightarrow>
            sqlFiles (SQLFiles env b files) = sqlFiles b @ files
            \<and> err (SQLFiles env b files) = Some e)
       \<and> ((\<exists>f \<in> set files. osIsNotExist env f) \<longrightarrow>
            sqlFiles (SQLFiles env b files) = sqlFiles b
            \<and> (\<exists>pre f post. files = pre @ f # post
                 \<and> (\<forall>g \<in> set pre. \<not> osIsNotExist env g) \<and> osIsNotExist env f
                 \<and> err (SQLFiles env b files) = Some (ErrorString (''sql file '' @ f @ '' not exist''))))
       \<and> (\<exists>e'. err (applyCall b c) = Some e'
             \<and> Build env' (applyCall b c) w = (Inl e', applyCall b c, w))"
proof -
  have 1: "port (Port b p) = p \<and> err (Port b p) = Some e" using assms by (simp add: Port_def)
  have 2: "sqlStmts (SQLStmts b stmts) = sqlStmts b @ stmts \<and> err (SQLStmts b stmts) = Some e"
    using assms by (simp add: SQLStmts_def)
  have 3: "(\<forall>f \<in> set files. \<not> osIsNotExist env f) \<longrightarrow>
            sqlFiles (SQLFiles env b files) = sqlFiles b @ files \<and> err (SQLFiles env b files) = Some e"
  proof
    assume "\<forall>f \<in> set files. \<not> osIsNotExist env f"
    then have "statFiles env files = None" by (simp add: statFiles_None)
    with assms show "sqlFiles (SQLFiles env b files) = sqlFiles b @ files \<and> err (SQLFiles env b files) = Some e"
      by (simp add: SQLFiles_def)
  qed
  have 4: "(\<exists>f \<in> set files. osIsNotExist env f) \<longrightarrow>
            sqlFiles (SQLFiles env b files) = sqlFiles b
            \<and> (\<exists>pre f post. files = pre @ f # post
                 \<and> (\<forall>g \<in> set pre. \<not> osIsNotExist env g) \<and> osIsNotExist env f
                 \<and> err (SQLFiles env b files) = Some (ErrorString (''sql file '' @ f @ '' not exist'')))"
  proof
    assume "\<exists>f \<in> set files. osIsNotExist env f"
    then have "statFiles env files \<noteq> None" by (simp add: statFiles_None)
    then obtain f where f: "statFiles env files = Some f" by blast
    then obtain pre post where p: "files = pre @ f # post"
        "\<forall>g \<in> set pre. \<not> osIsNotExist env g" "osIsNotExist env f"
      unfolding statFiles_Some by blast
    from f have s: "SQLFiles env b files = b\<lparr>err := Some (ErrorString (''sql file '' @ f @ '' not exist''))\<rparr>"
      by (simp add: SQLFiles_def)
    then have "sqlFiles (SQLFiles env b files) = sqlFiles b"
      and "err (SQLFiles env b files) = Some (ErrorString (''sql file '' @ f @ '' not exist''))"
      by simp_all
    with p show "sqlFiles (SQLFiles env b files) = sqlFiles b
            \<and> (\<exists>pre f post. files = pre @ f # post
                 \<and> (\<forall>g \<in> set pre. \<not> osIsNotExist env g) \<and> osIsNotExist env f
                 \<and> err (SQLFiles env b files) = Some (ErrorString (''sql file '' @ f @ '' not exist'')))"
      by blast
  qed
  from assms have "err (applyCall b c) \<noteq> None" by (intro applyCall_err) simp
  then obtain e' where "err (applyCall b c) = Some e'" by blast
  then have 5: "\<exists>e'. err (applyCall b c) = Some e'
             \<and> Build env' (applyCall b c) w = (Inl e', applyCall b c, w)"
    by (simp add: Build_sticky)
  from 1 2 3 4 5 show ?thesis by blast
qed

theorem sticky_error_config_calls_witness:
  "err stuckBuilder = Some (ErrorString ''sql file missing.sql not exist'')
   \<and> port (Port stuckBuilder 3306) = 3306
   \<and> err (Port stuckBuilder 3306) = Some (ErrorString ''sql file missing.sql not exist'')
   \<and> sqlStmts (SQLStmts stuckBuilder [''SELECT 1'']) = sqlStmts stuckBuilder @ [''SELECT 1'']
   \<and> err (SQLStmts stuckBuilder [''SELECT 1'']) = Some (ErrorString ''sql file missing.sql not exist'')
   \<and> \<not> osIsNotExist envDemo ''seed.sql''
   \<and> sqlFiles (SQLFiles envDemo stuckBuilder [''seed.sql'']) = sqlFiles stuckBuilder @ [''seed.sql'']
   \<and> err (SQLFiles envDemo stuckBuilder [''seed.sql''])
       = Some (ErrorString ''sql file missing.sql not exist'')
   \<and> (\<exists>f \<in> set [''seed.sql'', ''gone.sql'', ''missing.sql'']. osIsNotExist envDemo f)
   \<and> sqlFiles (SQLFiles envDemo stuckBuilder [''seed.sql'', ''gone.sql'', ''missing.sql''])
       = sqlFiles stuckBuilder
   \<and> err (SQLFiles envDemo stuckBuilder [''seed.sql'', ''gone.sql'', ''missing.sql''])
       = Some (ErrorString ''sql file gone.sql not exist'')
   \<and> Build envDemo (applyCall stuckBuilder (CallSQLStmts [''SELECT 1''])) demoWorld
       = (Inl (ErrorString ''sql file missing.sql not exist''),
          applyCall stuckBuilder (CallSQLStmts [''SELECT 1'']), demoWorld)"
proof -
  have h: "err stuckBuilder = Some (ErrorString ''sql file missing.sql not exist'')"
    by (simp add: stuckBuilder_eq Builder_def)
  have ok: "\<forall>f \<in> set [''seed.sql'']. \<not> osIsNotExist envDemo f" by (simp add: envDemo_def)
  have missing: "\<exists>f \<in> set [''seed.sql'', ''gone.sql'', ''missing.sql'']. osIsNotExist envDemo f"
    by (simp add: envDemo_def)
  note t1 = sticky_error_config_calls [OF h, of 3306 "[''SELECT 1'']" "[''seed.sql'']" envDemo
              "CallSQLStmts [''SELECT 1'']" envDemo demoWorld]
  note t2 = sticky_error_config_calls [OF h, of 3306 "[''SELECT 1'']"
              "[''seed.sql'', ''gone.sql'', ''missing.sql'']" envDemo
              "CallSQLStmts [''SELECT 1'']" envDemo demoWorld]
  from t1 have a: "port (Port stuckBuilder 3306) = 3306
       \<and> err (Port stuckBuilder 3306) = Some (ErrorString ''sql file missing.sql not exist'')
       \<and> sqlStmts (SQLStmts stuckBuilder [''SELECT 1'']) = sqlStmts stuckBuilder @ [''SELECT 1'']
       \<and> err (SQLStmts stuckBuilder [''SELECT 1'']) = Some (ErrorString ''sql file missing.sql not exist'')"
    by blast
  from t1 ok have b: "sqlFiles (SQLFiles envDemo stuckBuilder [''seed.sql'']) = sqlFiles stuckBuilder @ [''seed.sql'']
       \<and> err (SQLFiles envDemo stuckBuilder [''seed.sql''])
           = Some (ErrorString ''sql file missing.sql not exist'')"
    by blast
  from t2 missing have c: "sqlFiles (SQLFiles envDemo stuckBuilder [''seed.sql'', ''gone.sql'', ''missing.sql''])
       = sqlFiles stuckBuilder"
    by blast
  have d: "err (SQLFiles envDemo stuckBuilder [''seed.sql'', ''gone.sql'', ''missing.sql''])
       = Some (ErrorString ''sql file gone.sql not exist'')"
    by (simp add: SQLFiles_def envDemo_def)
  from t1 h have e: "Build envDemo (applyCall stuckBuilder (CallSQLStmts [''SELECT 1''])) demoWorld
       = (Inl (ErrorString ''sql file missing.sql not exist''),
          applyCall stuckBuilder (CallSQLStmts [''SELECT 1'']), demoWorld)"
    by (simp add: SQLStmts_def)
  from ok have ok': "\<not> osIsNotExist envDemo ''seed.sql''" by simp
  from h a b c d e ok' missing show ?thesis by blast
qed

text \<open>
  Claim C1 as stated fails: on a builder whose sticky error is set by a missing file,
  \<open>Port\<close> changes the port, \<open>SQLStmts\<close> changes the statement list, \<open>SQLFiles\<close> with an
  existing path changes the file list, and \<open>SQLFiles\<close> with another missing path changes
  the sticky error.
\<close>

theorem sticky_error_noop_counterexample:
  "err stuckBuilder = Some (ErrorString ''sql file missing.sql not exist'')
   \<and> port stuckBuilder = 0 \<and> port (Port stuckBuilder 3306) = 3306
   \<and> sqlStmts stuckBuilder = [] \<and> sqlStmts (SQLStmts stuckBuilder [''SELECT 1'']) = [''SELECT 1'']
   \<and> sqlFiles stuckBuilder = [] \<and> sqlFiles (SQLFiles envDemo stuckBuilder [''seed.sql'']) = [''seed.sql'']
   \<and> err (SQLFiles envDemo stuckBuilder [''gone.sql'']) = Some (ErrorString ''sql file gone.sql not exist'')"
  by (simp add: stuckBuilder_eq Builder_def Port_def SQLStmts_def SQLFiles_def envDemo_def)

text \<open>
  Claim C3. When \<open>SQLFiles\<close> is called with a path that does not exist, the sticky error
  becomes the registration error "sql file \<open>f\<close> not exist" for such a path \<open>f\<close> of the
  call, and a following \<open>Build\<close> returns exactly that error, makes no outside call (the
  world is unchanged: no port probe, no server, no client, no seeding) and leaves the
  builder, hence the started flag, as it was.
\<close>

theorem missing_file_blocks_Build:
  assumes "\<exists>f \<in> set files. osIsNotExist env f"
  shows "\<exists>f \<in> set files. osIsNotExist env f
           \<and> err (SQLFiles env b files) = Some (ErrorString (''sql file '' @ f @ '' not exist''))
           \<and> Build env' (SQLFiles env b files) w
               = (Inl (ErrorString (''sql file '' @ f @ '' not exist'')), SQLFiles env b files, w)
           \<and> started (SQLFiles env b files) = started b"
proof -
  from assms have "statFiles env files \<noteq> None" by (simp add: statFiles_None)
  then obtain f where f: "statFiles env files = Some f" by blast
  then have m: "f \<in> set files \<and> osIsNotExist env f" unfolding statFiles_Some by auto
  from f have e: "SQLFiles env b files = b\<lparr>err := Some (ErrorString (''sql file '' @ f @ '' not exist''))\<rparr>"
    by (simp add: SQLFiles_def)
  then have "err (SQLFiles env b files) = Some (ErrorString (''sql file '' @ f @ '' not exist''))" by simp
  from Build_sticky [OF this, of env' w] e m show ?thesis by auto
qed

theorem missing_file_blocks_Build_witness:
  "(\<exists>f \<in> set [''a.sql'', ''missing.sql'']. osIsNotExist envDemo f)
   \<and> Build envDemo stuckBuilder demoWorld
       = (Inl (ErrorString ''sql file missing.sql not exist''), stuckBuilder, demoWorld)
   \<and> \<not> started stuckBuilder"
proof -
  have h: "\<exists>f \<in> set [''a.sql'', ''missing.sql'']. osIsNotExist envDemo f"
    by (simp add: envDemo_def)
  from missing_file_blocks_Build [OF h, of "Builder ''9f1c2ab4-7d3e-4c55-8a10-52e6b1f0c9aa'' []" envDemo demoWorld]
  show ?thesis using h
    by (simp add: stuckBuilder_eq Builder_def Build_def)
qed

lemma initWithStmts_builder:
  "initWithStmts env b w = (b', w') \<Longrightarrow> b' = b \<or> (\<exists>e. b' = b\<lparr>err := Some e\<rparr>)"
  by (auto simp: initWithStmts_def Let_def split: if_splits prod.splits option.splits)

lemma initWithFiles_builder:
  "initWithFiles env b w = (b', w') \<Longrightarrow> b' = b \<or> (\<exists>e. b' = b\<lparr>err := Some e\<rparr>)"
  by (auto simp: initWithFiles_def Let_def split: if_splits prod.splits option.splits)

lemma buildClient_result:
  assumes "buildClient env b w = (r, b', w')"
  shows "started b' = started b \<and> consistent r b'"
proof (cases "createMySQLClient env (port b) (dbName b) w")
  case (Pair res w1)
  obtain x d eo where res: "res = (x, d, eo)" by (cases res)
  show ?thesis
  proof (cases eo)
    case (Some e)
    with assms Pair res show ?thesis
      by (auto simp: buildClient_def Let_def consistent_def)
  next
    case None
    obtain b2 w2 where s: "initWithStmts env (b\<lparr>sqlxDB := x, sqlDB := d\<rparr>) w1 = (b2, w2)"
      by (cases "initWithStmts env (b\<lparr>sqlxDB := x, sqlDB := d\<rparr>) w1")
    obtain b3 w3 where f: "initWithFiles env b2 w2 = (b3, w3)"
      by (cases "initWithFiles env b2 w2")
    from initWithStmts_builder [OF s] have s2: "started b2 = started b" by auto
    from initWithFiles_builder [OF f] have s3: "started b3 = started b2" by auto
    from assms Pair res None s f s2 s3 show ?thesis
      by (auto simp: buildClient_def Let_def consistent_def split: option.splits)
  qed
qed

lemma initServer_started: "initServer env b w = (b', w') \<Longrightarrow> started b' = started b"
  by (auto simp: initServer_def split: if_splits prod.splits)

lemma buildServer_result:
  assumes "buildServer env b w = (r, b', w')"
  shows "started b' = started b \<and> consistent r b'"
proof -
  obtain b1 w1 where i: "initServer env b w = (b1, w1)" by (cases "initServer env b w")
  note s1 = initServer_started [OF i]
  show ?thesis
  proof (cases "err b1")
    case None
    with assms i have "buildClient env b1
       (goStart env b1 (logPrint (''start go mysql mocker server, listening at 127.0.0.1:'' @ Itoa (port b1)) w1)) = (r, b', w')"
      by (simp add: buildServer_def Let_def)
    from buildClient_result [OF this] s1 show ?thesis by simp
  next
    case (Some e)
    with assms i s1 show ?thesis by (auto simp: buildServer_def consistent_def)
  qed
qed

lemma Build_fresh_result:
  assumes "err b = None" "\<not> started b" "Build env b w = (r, b', w')"
  shows "started b' \<and> consistent r b'"
proof (cases "port b = 0")
  case True
  show ?thesis
  proof (cases "getFreePort env")
    case (ProbeErr p e)
    with assms True show ?thesis
      by (auto simp: Build_def CompareAndSwap_def consistent_def)
  next
    case (ProbeOk l p)
    with assms True have "buildServer env (b\<lparr>started := True, port := p, err := None\<rparr>)
        (emit (EvListenerClose l) (emit EvGetFreePort w)) = (r, b', w')"
      by (simp add: Build_def CompareAndSwap_def)
    from buildServer_result [OF this] show ?thesis by simp
  qed
next
  case False
  with assms have "buildServer env (b\<lparr>started := True\<rparr>) w = (r, b', w')"
    by (simp add: Build_def CompareAndSwap_def)
  from buildServer_result [OF this] show ?thesis by simp
qed

lemma Build_after:
  assumes "Build env b w = (r, b', w')"
  shows "(err b' \<noteq> None \<or> started b') \<and> (started b \<longrightarrow> started b')"
proof (cases "err b \<noteq> None \<or> started b")
  case True
  from Build_blocked [OF True, of env w] assms show ?thesis using True by auto
next
  case False
  with Build_fresh_result [of b env w r b' w'] assms show ?thesis by simp
qed

text \<open>
  Claim C2. The started flag is set at most once, by the first \<open>Build\<close>: a \<open>Build\<close> that
  finds no sticky error and the flag unset sets it, no call ever unsets it, and a first
  \<open>Build\<close> that leaves it unset leaves a sticky error behind. Whatever
  the first \<open>Build\<close> did, and whatever configuration calls follow it, a second \<open>Build\<close> on
  the same builder returns an error, leaves the builder (and so the flag) unchanged and
  makes no outside call: no port probe, no server initialization or start, no client
  connection, no seeding.
\<close>

theorem Build_second_call:
  assumes "Build env1 b w = (r1, b1, w1)"
      and "Build env2 (configure b1 calls) w1 = (r2, b2, w2)"
  shows "(err b = None \<and> \<not> started b \<longrightarrow> started b1)
       \<and> (started b \<longrightarrow> started b1)
       \<and> (started b1 \<or> err b1 \<noteq> None)
       \<and> started (configure b1 calls) = started b1
       \<and> (\<exists>e. r2 = Inl e) \<and> b2 = configure b1 calls \<and> w2 = w1"
proof -
  from Build_after [OF assms(1)] have a: "err b1 \<noteq> None \<or> started b1" and m: "started b \<longrightarrow> started b1"
    by simp_all
  from a have "err (configure b1 calls) \<noteq> None \<or> started (configure b1 calls)"
    using configure_err [of b1 calls] by (auto simp: configure_started)
  from Build_blocked [OF this, of env2 w1] assms(2)
  have "(\<exists>e. r2 = Inl e) \<and> b2 = configure b1 calls \<and> w2 = w1" by auto
  moreover have "err b = None \<and> \<not> started b \<longrightarrow> started b1"
    using Build_fresh_result [of b env1 w r1 b1 w1] assms(1) by simp
  ultimately show ?thesis using m a by (auto simp: configure_started)
qed

theorem Build_second_call_witness:
  "Build envDemo demoBuilder demoWorld
     = (Inr (sqlxDB demoBuilt, sqlDB demoBuilt, server demoBuilt), demoBuilt, demoBuiltWorld)
   \<and> err demoBuilder = None \<and> \<not> started demoBuilder \<and> started demoBuilt
   \<and> Build envDemo (configure demoBuilt [CallPort 3306]) demoBuiltWorld
       = (Inl (ErrorString ''mysql server already started''),
          configure demoBuilt [CallPort 3306], demoBuiltWorld)"
proof -
  have h1: "Build envDemo demoBuilder demoWorld
     = (Inr (sqlxDB demoBuilt, sqlDB demoBuilt, server demoBuilt), demoBuilt, demoBuiltWorld)"
    by (rule demoBuild)
  have h2: "Build envDemo (configure demoBuilt [CallPort 3306]) demoBuiltWorld
       = (Inl (ErrorString ''mysql server already started''),
          configure demoBuilt [CallPort 3306], demoBuiltWorld)"
    by (simp add: Build_already_started configure_def Port_def demoBuilt_def)
  from Build_second_call [OF h1 h2] h1 h2 show ?thesis
    by (simp add: demoBuilder_eq)
qed

text \<open>
  Claim C10. When a \<open>Build\<close> that passed both gates (no sticky error, flag unset) fails,
  whether in the port probe, the server initialization, the client connection or the
  seeding, the flag is set and the returned error is recorded in the sticky error. Every
  later \<open>Build\<close> then returns that recorded error, not "mysql server already started",
  and changes nothing, since the sticky error is checked before the flag; the builder being
  unchanged, this holds for each further call.
\<close>

theorem Build_failure_is_sticky:
  assumes "err b = None" and "\<not> started b" and "Build env b w = (Inl e, b1, w1)"
  shows "started b1 \<and> err b1 = Some e \<and> (\<forall>env2 w2. Build env2 b1 w2 = (Inl e, b1, w2))"
proof -
  from Build_fresh_result [OF assms] have "started b1" and "err b1 = Some e"
    by (simp_all add: consistent_def)
  then show ?thesis by (simp add: Build_sticky)
qed

theorem Build_failure_is_sticky_witness:
  "err demoBuilder = None \<and> \<not> started demoBuilder
   \<and> Build envNoClient demoBuilder demoWorld = (Inl unreachableError, unreachableBuilt, unreachableWorld)
   \<and> started unreachableBuilt
   \<and> Build envDemo unreachableBuilt unreachableWorld
       = (Inl unreachableError, unreachableBuilt, unreachableWorld)"
proof -
  have h1: "err demoBuilder = None" and h2: "\<not> started demoBuilder"
    by (simp_all add: demoBuilder_eq)
  note h3 = unreachableBuild
  from Build_failure_is_sticky [OF h1 h2 h3] h1 h2 h3 show ?thesis by simp
qed

subsection \<open>Failing calls end Build\<close>

lemma failLast_Nil [simp]: "failLast env t [] r"
  by (simp add: failLast_def)

lemma failLast_ok: "reported env t ev = None \<Longrightarrow> failLast env t [ev] r"
  by (auto simp: failLast_def Cons_eq_append_conv)

lemma failLast_fail: "reported env t ev = Some e \<Longrightarrow> failLast env t [ev] (Some e)"
  by (auto simp: failLast_def Cons_eq_append_conv)

lemma failLast_append:
  assumes 1: "failLast env t n1 None" and 2: "failLast env (t @ n1) n2 r"
  shows "failLast env t (n1 @ n2) r"
  unfolding failLast_def
proof (intro allI impI)
  fix t1 ev t2 e
  assume a: "n1 @ n2 = t1 @ ev # t2 \<and> reported env (t @ t1) ev = Some e"
  then have eq: "n1 @ n2 = t1 @ ev # t2" and rep: "reported env (t @ t1) ev = Some e" by simp_all
  from eq obtain us where us: "(n1 = t1 @ us \<and> us @ n2 = ev # t2) \<or> (n1 @ us = t1 \<and> n2 = us @ ev # t2)"
    unfolding append_eq_append_conv2 by blast
  then show "t2 = [] \<and> r = Some e"
  proof
    assume c: "n1 = t1 @ us \<and> us @ n2 = ev # t2"
    show ?thesis
    proof (cases us)
      case Nil
      with c have "n2 = [] @ ev # t2" and "t @ n1 = t @ t1" by simp_all
      with 2 rep show ?thesis unfolding failLast_def by (metis append_Nil2)
    next
      case (Cons u us')
      with c have "n1 = t1 @ ev # us'" by simp
      with 1 rep have "None = Some e" unfolding failLast_def by blast
      then show ?thesis by simp
    qed
  next
    assume c: "n1 @ us = t1 \<and> n2 = us @ ev # t2"
    then have "reported env ((t @ n1) @ us) ev = Some e" using rep by auto
    with 2 c show ?thesis unfolding failLast_def by blast
  qed
qed

lemma failLast_None_any: "failLast env t new None \<Longrightarrow> failLast env t new r"
  unfolding failLast_def by blast

lemma extends_refl [simp]: "extends env w r w"
  by (simp add: extends_def startPanics_def)

lemma extends_trans:
  assumes "extends env w None w1" and "extends env w1 r w2"
  shows "extends env w r w2"
proof -
  from assms(1) obtain n1 where 1: "trace w1 = trace w @ n1" "failLast env (trace w) n1 None"
      "goPanics w1 = goPanics w @ startPanics env n1"
    unfolding extends_def by blast
  from assms(2) obtain n2 where 2: "trace w2 = trace w1 @ n2" "failLast env (trace w1) n2 r"
      "goPanics w2 = goPanics w1 @ startPanics env n2"
    unfolding extends_def by blast
  from 1 2 have "failLast env (trace w) (n1 @ n2) r" by (simp add: failLast_append)
  moreover from 1 2 have "trace w2 = trace w @ (n1 @ n2)" by simp
  moreover from 1 2 have "goPanics w2 = goPanics w @ startPanics env (n1 @ n2)"
    by (simp add: startPanics_def)
  ultimately show ?thesis unfolding extends_def by blast
qed

lemma extends_None_any: "extends env w None w' \<Longrightarrow> extends env w r w'"
  unfolding extends_def using failLast_None_any by blast

lemma extends_emit_ok:
  assumes "reported env (trace w) ev = None" and "startPanic env ev = []"
  shows "extends env w r (emit ev w)"
proof -
  from assms(1) have "failLast env (trace w) [ev] r" by (rule failLast_ok)
  moreover have "trace (emit ev w) = trace w @ [ev]" by simp
  moreover from assms(2) have "goPanics (emit ev w) = goPanics w @ startPanics env [ev]"
    by (simp add: startPanics_def)
  ultimately show ?thesis unfolding extends_def by blast
qed

lemma extends_emit_fail:
  assumes "reported env (trace w) ev = Some e" and "startPanic env ev = []"
  shows "extends env w (Some e) (emit ev w)"
proof -
  from assms(1) have "failLast env (trace w) [ev] (Some e)" by (rule failLast_fail)
  moreover have "trace (emit ev w) = trace w @ [ev]" by simp
  moreover from assms(2) have "goPanics (emit ev w) = goPanics w @ startPanics env [ev]"
    by (simp add: startPanics_def)
  ultimately show ?thesis unfolding extends_def by blast
qed

lemma extends_log: "extends env w r (logPrint msg w)"
  unfolding logPrint_def by (intro extends_emit_ok) simp_all

lemma executeSQLStatements_extends:
  "executeSQLStatements env stmts w = (r, w') \<Longrightarrow> extends env w r w'"
proof (induction stmts arbitrary: w)
  case Nil
  then show ?case by simp
next
  case (Cons stmt stmts)
  show ?case
  proof (cases "dbExec env (trace w) stmt")
    case None
    with Cons.prems have "executeSQLStatements env stmts (emit (EvExec stmt) w) = (r, w')" by simp
    from Cons.IH [OF this] have "extends env (emit (EvExec stmt) w) r w'" .
    moreover from None have "extends env w None (emit (EvExec stmt) w)"
      by (intro extends_emit_ok) simp_all
    ultimately show ?thesis by (rule extends_trans [rotated])
  next
    case (Some e)
    with Cons.prems have r: "r = Some (execError stmt e)" "w' = emit (EvExec stmt) w" by simp_all
    from Some have "extends env w (Some (execError stmt e)) (emit (EvExec stmt) w)"
      by (intro extends_emit_fail) simp_all
    with r show ?thesis by simp
  qed
qed

lemma stmtsLoop_extends: "stmtsLoop env xs w = (r, w') \<Longrightarrow> extends env w r w'"
proof (induction xs arbitrary: w)
  case Nil
  then show ?case by simp
next
  case (Cons x xs)
  show ?case
  proof (cases "splitSQLStatements env x")
    case (Inl e)
    with Cons.prems show ?thesis by simp
  next
    case (Inr stmts)
    obtain r1 w1 where ex: "executeSQLStatements env stmts w = (r1, w1)"
      by (cases "executeSQLStatements env stmts w")
    note e1 = executeSQLStatements_extends [OF ex]
    show ?thesis
    proof (cases r1)
      case None
      with Cons.prems Inr ex have "stmtsLoop env xs w1 = (r, w')" by simp
      from Cons.IH [OF this] e1 None show ?thesis by (auto intro: extends_trans)
    next
      case (Some e)
      with Cons.prems Inr ex e1 show ?thesis by simp
    qed
  qed
qed

lemma filesLoop_extends: "filesLoop env xs w = (r, w') \<Longrightarrow> extends env w r w'"
proof (induction xs arbitrary: w)
  case Nil
  then show ?case by simp
next
  case (Cons x xs)
  show ?case
  proof (cases "splitSQLFile env x")
    case (Inl e)
    then have "extends env w (Some (splitFileError x e)) (emit (EvSplitSQLFile x) w)"
      by (intro extends_emit_fail) simp_all
    with Cons.prems Inl show ?thesis by simp
  next
    case (Inr stmts)
    then have e0: "extends env w None (emit (EvSplitSQLFile x) w)"
      by (intro extends_emit_ok) simp_all
    obtain r1 w1 where ex: "executeSQLStatements env stmts (emit (EvSplitSQLFile x) w) = (r1, w1)"
      by (cases "executeSQLStatements env stmts (emit (EvSplitSQLFile x) w)")
    note e1 = extends_trans [OF e0 executeSQLStatements_extends [OF ex]]
    show ?thesis
    proof (cases r1)
      case None
      with Cons.prems Inr ex have "filesLoop env xs w1 = (r, w')" by simp
      from Cons.IH [OF this] e1 None show ?thesis by (auto intro: extends_trans)
    next
      case (Some e)
      with Cons.prems Inr ex e1 show ?thesis by simp
    qed
  qed
qed

lemma initWithStmts_extends:
  assumes "initWithStmts env b w = (b', w')"
  shows "extends env w (err b') w'"
proof (cases "err b \<noteq> None \<or> sqlStmts b = []")
  case True
  with assms show ?thesis by (auto simp: initWithStmts_def)
next
  case False
  define w1 where "w1 = logPrint (''start to init data with sql stmts, count = '' @ Itoa (int (length (sqlStmts b)))) w"
  obtain r w2 where l: "stmtsLoop env (sqlStmts b) w1 = (r, w2)"
    by (cases "stmtsLoop env (sqlStmts b) w1")
  have "extends env w None w1" unfolding w1_def by (rule extends_log)
  from extends_trans [OF this stmtsLoop_extends [OF l]] have e2: "extends env w r w2" .
  show ?thesis
  proof (cases r)
    case None
    with assms False l have b: "b' = b"
      and w: "w' = logPrint (''init data with sql stmts successfully, count = '' @ Itoa (int (length (sqlStmts b)))) w2"
      by (auto simp: initWithStmts_def Let_def w1_def)
    from e2 None have "extends env w None w2" by simp
    from extends_trans [OF this extends_log] have "extends env w None w'" unfolding w .
    with b False show ?thesis by simp
  next
    case (Some e)
    with assms False l have "b' = b\<lparr>err := Some e\<rparr>" and "w' = w2"
      by (auto simp: initWithStmts_def Let_def w1_def)
    with e2 Some show ?thesis by simp
  qed
qed

lemma initWithFiles_extends:
  assumes "initWithFiles env b w = (b', w')"
  shows "extends env w (err b') w'"
proof (cases "err b \<noteq> None \<or> sqlFiles b = []")
  case True
  with assms show ?thesis by (auto simp: initWithFiles_def)
next
  case False
  define w1 where "w1 = logPrint (''start to init data with sql files, count = '' @ Itoa (int (length (sqlFiles b)))) w"
  obtain r w2 where l: "filesLoop env (sqlFiles b) w1 = (r, w2)"
    by (cases "filesLoop env (sqlFiles b) w1")
  have "extends env w None w1" unfolding w1_def by (rule extends_log)
  from extends_trans [OF this filesLoop_extends [OF l]] have e2: "extends env w r w2" .
  show ?thesis
  proof (cases r)
    case None
    with assms False l have b: "b' = b"
      and w: "w' = logPrint (''init data with sql files successfully, count = '' @ Itoa (int (length (sqlFiles b)))) w2"
      by (auto simp: initWithFiles_def Let_def w1_def)
    from e2 None have "extends env w None w2" by simp
    from extends_trans [OF this extends_log] have "extends env w None w'" unfolding w .
    with b False show ?thesis by simp
  next
    case (Some e)
    with assms False l have "b' = b\<lparr>err := Some e\<rparr>" and "w' = w2"
      by (auto simp: initWithFiles_def Let_def w1_def)
    with e2 Some show ?thesis by simp
  qed
qed

lemma createMySQLClient_extends:
  assumes "createMySQLClient env p name w = ((x, d, eo), w1)"
  shows "extends env w (map_option (Errorf ''failed to create sql client: '') eo) w1"
proof -
  define dsn where "dsn = ''root:@tcp(127.0.0.1:'' @ Itoa p @ '')/'' @ name"
  define wa where "wa = emit (EvSqlxConnect dsn) w"
  define wb where "wb = emit (EvSqlxPing dsn) wa"
  define wc where "wc = emit (EvSqlOpen dsn) wb"
  define wd where "wd = emit (EvSqlPing dsn) wc"
  show ?thesis
  proof (cases "sqlxConnect env dsn")
    case (Some e)
    with assms have "eo = Some (Errorf ''failed to connect sqlx client: '' e)" and "w1 = wa"
      by (auto simp: createMySQLClient_def Let_def dsn_def wa_def)
    moreover from Some have "extends env w
        (Some (Errorf ''failed to create sql client: '' (Errorf ''failed to connect sqlx client: '' e))) wa"
      unfolding wa_def by (intro extends_emit_fail) simp_all
    ultimately show ?thesis by simp
  next
    case a: None
    then have ea: "extends env w None wa" unfolding wa_def by (intro extends_emit_ok) simp_all
    show ?thesis
    proof (cases "sqlxPing env dsn")
      case (Some e)
      with a assms have "eo = Some (Errorf ''failed to ping sqlx: '' e)" and "w1 = wb"
        by (auto simp: createMySQLClient_def Let_def dsn_def wa_def wb_def)
      moreover from Some have "extends env wa
          (Some (Errorf ''failed to create sql client: '' (Errorf ''failed to ping sqlx: '' e))) wb"
        unfolding wb_def by (intro extends_emit_fail) simp_all
      ultimately show ?thesis using extends_trans [OF ea] by simp
    next
      case b: None
      then have "extends env wa None wb" unfolding wb_def by (intro extends_emit_ok) simp_all
      with ea have eb: "extends env w None wb" by (rule extends_trans)
      show ?thesis
      proof (cases "sqlOpen env dsn")
        case (Some e)
        with a b assms have "eo = Some (Errorf ''failed to connect sql client: '' e)" and "w1 = wc"
          by (auto simp: createMySQLClient_def Let_def dsn_def wa_def wb_def wc_def)
        moreover from Some have "extends env wb
            (Some (Errorf ''failed to create sql client: '' (Errorf ''failed to connect sql client: '' e))) wc"
          unfolding wc_def by (intro extends_emit_fail) simp_all
        ultimately show ?thesis using extends_trans [OF eb] by simp
      next
        case c: None
        then have "extends env wb None wc" unfolding wc_def by (intro extends_emit_ok) simp_all
        with eb have ec: "extends env w None wc" by (rule extends_trans)
        show ?thesis
        proof (cases "sqlPing env dsn")
          case (Some e)
          with a b c assms have "eo = Some (Errorf ''failed to ping sql: '' e)" and "w1 = wd"
            by (auto simp: createMySQLClient_def Let_def dsn_def wa_def wb_def wc_def wd_def)
          moreover from Some have "extends env wc
              (Some (Errorf ''failed to create sql client: '' (Errorf ''failed to ping sql: '' e))) wd"
            unfolding wd_def by (intro extends_emit_fail) simp_all
          ultimately show ?thesis using extends_trans [OF ec] by simp
        next
          case None
          with a b c assms have "eo = None" and "w1 = wd"
            by (auto simp: createMySQLClient_def Let_def dsn_def wa_def wb_def wc_def wd_def)
          moreover from None have "extends env wc None wd"
            unfolding wd_def by (intro extends_emit_ok) simp_all
          ultimately show ?thesis using extends_trans [OF ec] by simp
        qed
      qed
    qed
  qed
qed

lemma buildClient_extends:
  assumes "buildClient env b w = (r, b', w')"
  shows "extends env w (errOf r) w'"
proof -
  obtain x d eo w1 where c: "createMySQLClient env (port b) (dbName b) w = ((x, d, eo), w1)"
    by (metis prod.exhaust)
  note e1 = createMySQLClient_extends [OF c]
  show ?thesis
  proof (cases eo)
    case (Some e)
    with assms c have "r = Inl (Errorf ''failed to create sql client: '' e)" and "w' = w1"
      by (auto simp: buildClient_def Let_def)
    with e1 Some show ?thesis by (simp add: errOf_def)
  next
    case None
    obtain b2 w2 where s: "initWithStmts env (b\<lparr>sqlxDB := x, sqlDB := d\<rparr>) w1 = (b2, w2)"
      by (cases "initWithStmts env (b\<lparr>sqlxDB := x, sqlDB := d\<rparr>) w1")
    obtain b3 w3 where f: "initWithFiles env b2 w2 = (b3, w3)"
      by (cases "initWithFiles env b2 w2")
    from assms c None s f have r: "errOf r = err b3" and w: "w' = w3"
      by (auto simp: buildClient_def Let_def errOf_def split: option.splits)
    from e1 None have e1': "extends env w None w1" by simp
    note e2 = initWithStmts_extends [OF s]
    note e3 = initWithFiles_extends [OF f]
    have "extends env w1 (err b3) w3"
    proof (cases "err b2")
      case None
      with e2 e3 show ?thesis by (auto intro: extends_trans)
    next
      case (Some e)
      with f have "b3 = b2" and "w3 = w2" by (simp_all add: initWithFiles_def)
      with e2 show ?thesis by simp
    qed
    with e1' r w show ?thesis by (auto intro: extends_trans)
  qed
qed

lemma goStart_extends:
  assumes "server b = Some s"
  shows "extends env w r (goStart env b w)"
proof -
  have "failLast env (trace w) [EvServerStart s] r" by (rule failLast_ok) simp
  moreover from assms have "trace (goStart env b w) = trace w @ [EvServerStart s]"
    by (simp add: goStart_def split: option.splits)
  moreover from assms have "goPanics (goStart env b w) = goPanics w @ startPanics env [EvServerStart s]"
    by (simp add: goStart_def startPanics_def split: option.splits)
  ultimately show ?thesis unfolding extends_def by blast
qed

lemma initServer_cases:
  assumes "initServer env b w = (b1, w1)" and "err b = None"
  shows "w1 = emit (EvNewServer (dbName b) \<lparr>Protocol = ''tcp'', Address = ''127.0.0.1:'' @ Itoa (port b)\<rparr>) w
       \<and> (case NewServer env (dbName b) \<lparr>Protocol = ''tcp'', Address = ''127.0.0.1:'' @ Itoa (port b)\<rparr> of
             Inl e \<Rightarrow> b1 = b\<lparr>server := None, err := Some (Errorf ''failed to create server: '' e)\<rparr>
           | Inr s \<Rightarrow> b1 = b\<lparr>server := Some s, err := None\<rparr>)"
  using assms by (auto simp: initServer_def createMySQLServer_def Let_def split: sum.splits)

lemma buildServer_extends:
  assumes "buildServer env b w = (r, b', w')"
  shows "extends env w (errOf r) w'"
proof (cases "err b")
  case (Some e)
  with assms show ?thesis by (simp add: buildServer_def initServer_def)
next
  case None
  obtain b1 w1 where i: "initServer env b w = (b1, w1)" by (cases "initServer env b w")
  define config where "config = \<lparr>Protocol = ''tcp'', Address = ''127.0.0.1:'' @ Itoa (port b)\<rparr>"
  from initServer_cases [OF i None]
  have w1: "w1 = emit (EvNewServer (dbName b) config) w"
    and b1: "case NewServer env (dbName b) config of
             Inl e \<Rightarrow> b1 = b\<lparr>server := None, err := Some (Errorf ''failed to create server: '' e)\<rparr>
           | Inr s \<Rightarrow> b1 = b\<lparr>server := Some s, err := None\<rparr>"
    unfolding config_def by simp_all
  show ?thesis
  proof (cases "NewServer env (dbName b) config")
    case (Inl e)
    with b1 have "err b1 = Some (Errorf ''failed to create server: '' e)" by simp
    with assms i have "r = Inl (Errorf ''failed to create server: '' e)" and "w' = w1"
      by (auto simp: buildServer_def)
    moreover from Inl have "extends env w (Some (Errorf ''failed to create server: '' e)) w1"
      unfolding w1 by (intro extends_emit_fail) simp_all
    ultimately show ?thesis by (simp add: errOf_def)
  next
    case (Inr s)
    with b1 have e: "err b1 = None" and sv: "server b1 = Some s" by simp_all
    define w2 where "w2 = logPrint (''start go mysql mocker server, listening at 127.0.0.1:'' @ Itoa (port b1)) w1"
    from assms i e have c: "buildClient env b1 (goStart env b1 w2) = (r, b', w')"
      by (simp add: buildServer_def Let_def w2_def)
    from Inr have "extends env w None w1" unfolding w1 by (intro extends_emit_ok) simp_all
    moreover have "extends env w1 None w2" unfolding w2_def by (rule extends_log)
    moreover have "extends env w2 None (goStart env b1 w2)" using sv by (rule goStart_extends)
    moreover note buildClient_extends [OF c]
    ultimately show ?thesis by (blast intro: extends_trans)
  qed
qed

lemma Build_extends:
  assumes "Build env b w = (r, b', w')"
  shows "extends env w (errOf r) w'"
proof (cases "err b \<noteq> None \<or> started b")
  case True
  from Build_blocked [OF this, of env w] assms show ?thesis by auto
next
  case False
  then have e: "err b = None" and s: "\<not> started b" by simp_all
  show ?thesis
  proof (cases "port b = 0")
    case True
    show ?thesis
    proof (cases "getFreePort env")
      case (ProbeErr p e')
      with assms e s True have "r = Inl e'" and "w' = emit EvGetFreePort w"
        by (auto simp: Build_def CompareAndSwap_def)
      moreover from ProbeErr have "extends env w (Some e') (emit EvGetFreePort w)"
        by (intro extends_emit_fail) simp_all
      ultimately show ?thesis by (simp add: errOf_def)
    next
      case (ProbeOk l p)
      with assms e s True have "buildServer env (b\<lparr>started := True, port := p, err := None\<rparr>)
          (emit (EvListenerClose l) (emit EvGetFreePort w)) = (r, b', w')"
        by (simp add: Build_def CompareAndSwap_def)
      note buildServer_extends [OF this]
      moreover from ProbeOk have "extends env w None (emit EvGetFreePort w)"
        by (intro extends_emit_ok) simp_all
      moreover have "extends env (emit EvGetFreePort w) None (emit (EvListenerClose l) (emit EvGetFreePort w))"
        by (intro extends_emit_ok) simp_all
      ultimately show ?thesis by (blast intro: extends_trans)
    qed
  next
    case False
    with assms e s have "buildServer env (b\<lparr>started := True\<rparr>) w = (r, b', w')"
      by (simp add: Build_def CompareAndSwap_def)
    then show ?thesis by (rule buildServer_extends)
  qed
qed

lemma Build_reports:
  assumes "Build env b w = (r, b', w')"
      and "trace w' = trace w @ t1 @ ev # t2"
      and "reported env (trace w @ t1) ev = Some e"
  shows "t2 = [] \<and> r = Inl e \<and> err b' = Some e"
proof -
  from Build_extends [OF assms(1)] obtain new where n: "trace w' = trace w @ new"
      and f: "failLast env (trace w) new (errOf r)"
    unfolding extends_def by blast
  from n assms(2) have "new = t1 @ ev # t2" by simp
  with f assms(3) have t2: "t2 = []" and r: "errOf r = Some e" unfolding failLast_def by blast+
  from r have r': "r = Inl e" by (simp add: errOf_def split: sum.splits)
  have "\<not> (err b \<noteq> None \<or> started b)"
  proof
    assume "err b \<noteq> None \<or> started b"
    from Build_blocked [OF this, of env w] assms(1) have "w' = w" by auto
    with assms(2) show False by simp
  qed
  with Build_fresh_result [of b env w r b' w'] assms(1) r' have "err b' = Some e"
    by (simp add: consistent_def)
  with t2 r' show ?thesis by simp
qed

lemma Build_panics:
  assumes "Build env b w = (r, b', w')" and "trace w' = trace w @ new"
  shows "goPanics w' = goPanics w @ startPanics env new"
  using Build_extends [OF assms(1)] assms(2) unfolding extends_def by auto

lemma Error_execError:
  "Error (execError stmt e) = ''failed to exec sql stmt '' @ [CHR 0x27] @ stmt @ [CHR 0x27] @ '': '' @ Error e"
  by (simp add: execError_def Errorf_def)

lemma sublist_execError: "sublist stmt (Error (execError stmt e))"
  unfolding Error_execError sublist_def
  by (rule exI [of _ "''failed to exec sql stmt '' @ [CHR 0x27]"], rule exI [of _ "[CHR 0x27] @ '': '' @ Error e"]) simp

text \<open>
  Claim C5. In any run of \<open>Build\<close>, a statement whose \<open>Exec\<close> fails is the last outside
  call of the run: nothing is executed after it, neither a later literal statement nor a
  statement of a file. \<open>Build\<close> returns the error of that \<open>Exec\<close> wrapped by
  "failed to exec sql stmt '\<open>stmt\<close>': ", records it in the sticky error, and the message
  of the returned error contains the text of the statement.
\<close>

theorem exec_failure_aborts_seeding:
  assumes "Build env b w = (r, b', w')"
      and "trace w' = trace w @ t1 @ EvExec stmt # t2"
      and "dbExec env (trace w @ t1) stmt = Some e"
  shows "t2 = [] \<and> r = Inl (execError stmt e) \<and> err b' = Some (execError stmt e)
       \<and> Unwrap (execError stmt e) = Some e
       \<and> Error (execError stmt e)
           = ''failed to exec sql stmt '' @ [CHR 0x27] @ stmt @ [CHR 0x27] @ '': '' @ Error e
       \<and> sublist stmt (Error (execError stmt e))"
proof -
  from assms(3) have "reported env (trace w @ t1) (EvExec stmt) = Some (execError stmt e)" by simp
  from Build_reports [OF assms(1) assms(2) this]
  have "t2 = [] \<and> r = Inl (execError stmt e) \<and> err b' = Some (execError stmt e)" .
  moreover have "Unwrap (execError stmt e) = Some e" by (simp add: execError_def Errorf_def)
  ultimately show ?thesis using Error_execError sublist_execError by blast
qed

theorem exec_failure_aborts_seeding_witness:
  "Build envDemo failingBuilder demoWorld
     = (Inl (execError ''BAD'' (ErrorString ''syntax error'')), failingBuilt,
        \<lparr>trace = failingPrefix @ [EvExec ''BAD''], goPanics = []\<rparr>)
   \<and> dbExec envDemo (trace demoWorld @ failingPrefix) ''BAD'' = Some (ErrorString ''syntax error'')
   \<and> err failingBuilt = Some (execError ''BAD'' (ErrorString ''syntax error''))
   \<and> Error (execError ''BAD'' (ErrorString ''syntax error''))
       = ''failed to exec sql stmt '' @ [CHR 0x27] @ ''BAD'' @ [CHR 0x27] @ '': syntax error''
   \<and> sublist ''BAD'' (Error (execError ''BAD'' (ErrorString ''syntax error'')))"
proof -
  note h1 = failingBuild
  have h2: "trace \<lparr>trace = failingPrefix @ [EvExec ''BAD''], goPanics = []\<rparr>
              = trace demoWorld @ failingPrefix @ EvExec ''BAD'' # []"
    by (simp add: demoWorld_def)
  have h3: "dbExec envDemo (trace demoWorld @ failingPrefix) ''BAD'' = Some (ErrorString ''syntax error'')"
    by (simp add: envDemo_def)
  note t = exec_failure_aborts_seeding [OF h1 h2 h3]
  from t have e: "err failingBuilt = Some (execError ''BAD'' (ErrorString ''syntax error''))"
    by blast
  from t have m: "Error (execError ''BAD'' (ErrorString ''syntax error''))
       = ''failed to exec sql stmt '' @ [CHR 0x27] @ ''BAD'' @ [CHR 0x27] @ '': syntax error''"
    by simp
  from t have s: "sublist ''BAD'' (Error (execError ''BAD'' (ErrorString ''syntax error'')))"
    by blast
  from h1 h3 e m s show ?thesis by blast
qed

subsection \<open>The Start goroutine\<close>

text \<open>Nothing but \<open>goStart\<close> reads \<open>serverStart\<close>, and nothing reads \<open>goPanics\<close>.\<close>

lemma emit_goPanics_update: "emit ev (w\<lparr>goPanics := g\<rparr>) = (emit ev w)\<lparr>goPanics := g\<rparr>"
  by (simp add: emit_def)

lemma logPrint_goPanics_update: "logPrint msg (w\<lparr>goPanics := g\<rparr>) = (logPrint msg w)\<lparr>goPanics := g\<rparr>"
  by (simp add: logPrint_def emit_goPanics_update)

lemma executeSQLStatements_goPanics:
  "executeSQLStatements env stmts (w\<lparr>goPanics := g\<rparr>)
     = apsnd (\<lambda>w'. w'\<lparr>goPanics := g\<rparr>) (executeSQLStatements env stmts w)"
  by (induction stmts arbitrary: w) (auto simp: emit_goPanics_update split: option.splits)

lemma stmtsLoop_goPanics:
  "stmtsLoop env xs (w\<lparr>goPanics := g\<rparr>) = apsnd (\<lambda>w'. w'\<lparr>goPanics := g\<rparr>) (stmtsLoop env xs w)"
  by (induction xs arbitrary: w)
     (auto simp: executeSQLStatements_goPanics split: sum.splits option.splits prod.splits)

lemma filesLoop_goPanics:
  "filesLoop env xs (w\<lparr>goPanics := g\<rparr>) = apsnd (\<lambda>w'. w'\<lparr>goPanics := g\<rparr>) (filesLoop env xs w)"
  by (induction xs arbitrary: w)
     (auto simp: executeSQLStatements_goPanics emit_goPanics_update
           split: sum.splits option.splits prod.splits)

lemma initWithStmts_goPanics:
  "initWithStmts env b (w\<lparr>goPanics := g\<rparr>) = apsnd (\<lambda>w'. w'\<lparr>goPanics := g\<rparr>) (initWithStmts env b w)"
  by (auto simp: initWithStmts_def Let_def stmtsLoop_goPanics logPrint_goPanics_update
           split: option.splits prod.splits)

lemma initWithFiles_goPanics:
  "initWithFiles env b (w\<lparr>goPanics := g\<rparr>) = apsnd (\<lambda>w'. w'\<lparr>goPanics := g\<rparr>) (initWithFiles env b w)"
  by (auto simp: initWithFiles_def Let_def filesLoop_goPanics logPrint_goPanics_update
           split: option.splits prod.splits)

lemma createMySQLClient_goPanics:
  "createMySQLClient env p name (w\<lparr>goPanics := g\<rparr>)
     = apsnd (\<lambda>w'. w'\<lparr>goPanics := g\<rparr>) (createMySQLClient env p name w)"
  by (simp add: createMySQLClient_def Let_def emit_goPanics_update split: option.splits)

lemma buildClient_goPanics:
  "buildClient env b (w\<lparr>goPanics := g\<rparr>)
     = apsnd (apsnd (\<lambda>w'. w'\<lparr>goPanics := g\<rparr>)) (buildClient env b w)"
  by (auto simp: buildClient_def Let_def createMySQLClient_goPanics initWithStmts_goPanics
                 initWithFiles_goPanics split: option.splits prod.splits)

lemma executeSQLStatements_serverStart:
  "executeSQLStatements (env\<lparr>serverStart := f\<rparr>) stmts w = executeSQLStatements env stmts w"
  by (induction stmts arbitrary: w) (auto split: option.splits)

lemma stmtsLoop_serverStart: "stmtsLoop (env\<lparr>serverStart := f\<rparr>) xs w = stmtsLoop env xs w"
  by (induction xs arbitrary: w)
     (auto simp: executeSQLStatements_serverStart split: sum.splits option.splits prod.splits)

lemma filesLoop_serverStart: "filesLoop (env\<lparr>serverStart := f\<rparr>) xs w = filesLoop env xs w"
  by (induction xs arbitrary: w)
     (auto simp: executeSQLStatements_serverStart split: sum.splits option.splits prod.splits)

lemma createMySQLClient_serverStart:
  "createMySQLClient (env\<lparr>serverStart := f\<rparr>) p name w = createMySQLClient env p name w"
  by (simp add: createMySQLClient_def Let_def split: option.splits)

lemma initWithStmts_serverStart:
  "initWithStmts (env\<lparr>serverStart := f\<rparr>) b w = initWithStmts env b w"
  by (simp add: initWithStmts_def stmtsLoop_serverStart)

lemma initWithFiles_serverStart:
  "initWithFiles (env\<lparr>serverStart := f\<rparr>) b w = initWithFiles env b w"
  by (simp add: initWithFiles_def filesLoop_serverStart)

lemma buildClient_serverStart: "buildClient (env\<lparr>serverStart := f\<rparr>) b w = buildClient env b w"
  by (simp add: buildClient_def createMySQLClient_serverStart initWithStmts_serverStart
        initWithFiles_serverStart Let_def split: option.splits prod.splits)

lemma initServer_serverStart: "initServer (env\<lparr>serverStart := f\<rparr>) b w = initServer env b w"
  by (simp add: initServer_def createMySQLServer_def)

lemma goStart_serverStart:
  "goStart (env\<lparr>serverStart := f\<rparr>) b w
     = (goStart env b w)\<lparr>goPanics := goPanics (goStart (env\<lparr>serverStart := f\<rparr>) b w)\<rparr>"
  by (simp add: goStart_def emit_def raise_def split: option.splits)

lemma buildServer_serverStart:
  "\<exists>g. buildServer (env\<lparr>serverStart := f\<rparr>) b w
     = apsnd (apsnd (\<lambda>w'. w'\<lparr>goPanics := g\<rparr>)) (buildServer env b w)"
proof -
  obtain b1 w1 where i: "initServer env b w = (b1, w1)" by (cases "initServer env b w")
  show ?thesis
  proof (cases "err b1")
    case (Some e)
    with i have "buildServer (env\<lparr>serverStart := f\<rparr>) b w
        = apsnd (apsnd (\<lambda>w'. w'\<lparr>goPanics := goPanics w1\<rparr>)) (buildServer env b w)"
      by (simp add: buildServer_def initServer_serverStart)
    then show ?thesis by blast
  next
    case None
    define w2 where "w2 = logPrint (''start go mysql mocker server, listening at 127.0.0.1:'' @ Itoa (port b1)) w1"
    define g where "g = goPanics (goStart (env\<lparr>serverStart := f\<rparr>) b1 w2)"
    from i None have "buildServer (env\<lparr>serverStart := f\<rparr>) b w
        = buildClient env b1 (goStart (env\<lparr>serverStart := f\<rparr>) b1 w2)"
      by (simp add: buildServer_def initServer_serverStart Let_def w2_def buildClient_serverStart)
    also have "\<dots> = buildClient env b1 ((goStart env b1 w2)\<lparr>goPanics := g\<rparr>)"
      unfolding g_def using goStart_serverStart [where env=env and f=f and b=b1 and w=w2] by simp
    also have "\<dots> = apsnd (apsnd (\<lambda>w'. w'\<lparr>goPanics := g\<rparr>)) (buildClient env b1 (goStart env b1 w2))"
      by (rule buildClient_goPanics)
    also from i None have "buildClient env b1 (goStart env b1 w2) = buildServer env b w"
      by (simp add: buildServer_def Let_def w2_def)
    finally show ?thesis by blast
  qed
qed

lemma Build_serverStart:
  "\<exists>g. Build (env\<lparr>serverStart := f\<rparr>) b w
     = apsnd (apsnd (\<lambda>w'. w'\<lparr>goPanics := g\<rparr>)) (Build env b w)"
proof (cases "err b \<noteq> None \<or> started b")
  case True
  have "Build (env\<lparr>serverStart := f\<rparr>) b w
      = apsnd (apsnd (\<lambda>w'. w'\<lparr>goPanics := goPanics w\<rparr>)) (Build env b w)"
  proof (cases "err b")
    case None
    with True show ?thesis by (simp add: Build_already_started)
  next
    case (Some e)
    then show ?thesis by (simp add: Build_sticky)
  qed
  then show ?thesis by blast
next
  case False
  then have e: "err b = None" and s: "\<not> started b" by simp_all
  show ?thesis
  proof (cases "port b = 0")
    case True
    show ?thesis
    proof (cases "getFreePort env")
      case (ProbeErr p e')
      with e s True have "Build (env\<lparr>serverStart := f\<rparr>) b w
          = apsnd (apsnd (\<lambda>w'. w'\<lparr>goPanics := goPanics w\<rparr>)) (Build env b w)"
        by (simp add: Build_def CompareAndSwap_def emit_def)
      then show ?thesis by blast
    next
      case (ProbeOk l p)
      with e s True show ?thesis
        using buildServer_serverStart [where env=env and f=f
                and b="b\<lparr>started := True, port := p, err := None\<rparr>"
                and w="emit (EvListenerClose l) (emit EvGetFreePort w)"]
        by (simp add: Build_def CompareAndSwap_def)
    qed
  next
    case False
    with e s show ?thesis
      using buildServer_serverStart [where env=env and f=f and b="b\<lparr>started := True\<rparr>" and w=w]
      by (simp add: Build_def CompareAndSwap_def)
  qed
qed

lemma Build_reports_mem:
  assumes "Build env b w = (r, b', w')" and "trace w' = trace w @ new" and "ev \<in> set new"
      and "\<And>t. reported env t ev = Some e"
  shows "r = Inl e"
proof -
  from assms(3) obtain t1 t2 where "new = t1 @ ev # t2" by (auto dest: split_list)
  with assms(2) have "trace w' = trace w @ t1 @ ev # t2" by simp
  from Build_reports [OF assms(1) this assms(4)] show ?thesis by simp
qed

lemma startPanics_mem:
  "EvServerStart s \<in> set new \<Longrightarrow> serverStart env s = Some e \<Longrightarrow> PanicError e \<in> set (startPanics env new)"
  by (force simp: startPanics_def)

text \<open>
  Claim C7. A failure of the server's \<open>Start\<close> call is raised as a panic on its goroutine
  and is neither returned by \<open>Build\<close> nor recorded in the builder: the panics after
  \<open>Build\<close> are those of the \<open>Start\<close> calls it launched, and what \<open>Build\<close> returns, the
  builder it leaves and the outside calls it makes are the same whatever \<open>Start\<close> does.
  Every other failure is returned by \<open>Build\<close> as an error: a sticky error from
  configuration, a failed port probe, a failed server construction, a failed client
  connection or ping, and a failed statement execution.
\<close>

theorem start_failure_panics_other_failures_returned:
  assumes "Build env b w = (r, b', w')" and "trace w' = trace w @ new"
  shows "(\<forall>s e. EvServerStart s \<in> set new \<and> serverStart env s = Some e
            \<longrightarrow> PanicError e \<in> set (goPanics w'))
       \<and> goPanics w' = goPanics w @ startPanics env new
       \<and> (\<forall>f. \<exists>g. Build (env\<lparr>serverStart := f\<rparr>) b w = (r, b', w'\<lparr>goPanics := g\<rparr>))
       \<and> (\<forall>e. err b = Some e \<longrightarrow> r = Inl e)
       \<and> (\<forall>p e. EvGetFreePort \<in> set new \<and> getFreePort env = ProbeErr p e \<longrightarrow> r = Inl e)
       \<and> (\<forall>name config e. EvNewServer name config \<in> set new \<and> NewServer env name config = Inl e
            \<longrightarrow> r = Inl (Errorf ''failed to create server: '' e))
       \<and> (\<forall>dsn e. EvSqlxConnect dsn \<in> set new \<and> sqlxConnect env dsn = Some e
            \<longrightarrow> r = Inl (Errorf ''failed to create sql client: ''
                             (Errorf ''failed to connect sqlx client: '' e)))
       \<and> (\<forall>dsn e. EvSqlxPing dsn \<in> set new \<and> sqlxPing env dsn = Some e
            \<longrightarrow> r = Inl (Errorf ''failed to create sql client: ''
                             (Errorf ''failed to ping sqlx: '' e)))
       \<and> (\<forall>dsn e. EvSqlOpen dsn \<in> set new \<and> sqlOpen env dsn = Some e
            \<longrightarrow> r = Inl (Errorf ''failed to create sql client: ''
                             (Errorf ''failed to connect sql client: '' e)))
       \<and> (\<forall>dsn e. EvSqlPing dsn \<in> set new \<and> sqlPing env dsn = Some e
            \<longrightarrow> r = Inl (Errorf ''failed to create sql client: ''
                             (Errorf ''failed to ping sql: '' e)))
       \<and> (\<forall>t1 stmt t2 e. new = t1 @ EvExec stmt # t2 \<and> dbExec env (trace w @ t1) stmt = Some e
            \<longrightarrow> r = Inl (execError stmt e))"
proof -
  note p = Build_panics [OF assms]
  have 1: "\<forall>s e. EvServerStart s \<in> set new \<and> serverStart env s = Some e
            \<longrightarrow> PanicError e \<in> set (goPanics w')"
    using p startPanics_mem by auto
  have 3: "\<forall>f. \<exists>g. Build (env\<lparr>serverStart := f\<rparr>) b w = (r, b', w'\<lparr>goPanics := g\<rparr>)"
  proof
    fix f
    from Build_serverStart [where env=env and f=f and b=b and w=w] assms(1)
    show "\<exists>g. Build (env\<lparr>serverStart := f\<rparr>) b w = (r, b', w'\<lparr>goPanics := g\<rparr>)" by simp
  qed
  have 4: "\<forall>e. err b = Some e \<longrightarrow> r = Inl e"
    using assms(1) by (auto simp: Build_sticky)
  have 5: "\<forall>p e. EvGetFreePort \<in> set new \<and> getFreePort env = ProbeErr p e \<longrightarrow> r = Inl e"
    by (auto intro!: Build_reports_mem [OF assms])
  have 6: "\<forall>name config e. EvNewServer name config \<in> set new \<and> NewServer env name config = Inl e
            \<longrightarrow> r = Inl (Errorf ''failed to create server: '' e)"
    by (auto intro!: Build_reports_mem [OF assms])
  have 7: "\<forall>dsn e. EvSqlxConnect dsn \<in> set new \<and> sqlxConnect env dsn = Some e
            \<longrightarrow> r = Inl (Errorf ''failed to create sql client: ''
                             (Errorf ''failed to connect sqlx client: '' e))"
    by (auto intro!: Build_reports_mem [OF assms])
  have 8: "\<forall>dsn e. EvSqlxPing dsn \<in> set new \<and> sqlxPing env dsn = Some e
            \<longrightarrow> r = Inl (Errorf ''failed to create sql client: ''
                             (Errorf ''failed to ping sqlx: '' e))"
    by (auto intro!: Build_reports_mem [OF assms])
  have 9: "\<forall>dsn e. EvSqlOpen dsn \<in> set new \<and> sqlOpen env dsn = Some e
            \<longrightarrow> r = Inl (Errorf ''failed to create sql client: ''
                             (Errorf ''failed to connect sql client: '' e))"
    by (auto intro!: Build_reports_mem [OF assms])
  have 10: "\<forall>dsn e. EvSqlPing dsn \<in> set new \<and> sqlPing env dsn = Some e
            \<longrightarrow> r = Inl (Errorf ''failed to create sql client: ''
                             (Errorf ''failed to ping sql: '' e))"
    by (auto intro!: Build_reports_mem [OF assms])
  have 11: "\<forall>t1 stmt t2 e. new = t1 @ EvExec stmt # t2 \<and> dbExec env (trace w @ t1) stmt = Some e
            \<longrightarrow> r = Inl (execError stmt e)"
  proof (intro allI impI)
    fix t1 stmt t2 e
    assume a: "new = t1 @ EvExec stmt # t2 \<and> dbExec env (trace w @ t1) stmt = Some e"
    with assms(2) have "trace w' = trace w @ t1 @ EvExec stmt # t2" by simp
    moreover from a have "reported env (trace w @ t1) (EvExec stmt) = Some (execError stmt e)" by simp
    ultimately show "r = Inl (execError stmt e)" using Build_reports [OF assms(1)] by blast
  qed
  from 1 p 3 4 5 6 7 8 9 10 11 show ?thesis by blast
qed

theorem start_failure_panics_other_failures_returned_witness:
  "Build envStartFails demoBuilder demoWorld
     = (Inr (sqlxDB demoBuilt, sqlDB demoBuilt, server demoBuilt), demoBuilt,
        demoBuiltWorld\<lparr>goPanics := [PanicError (ErrorString ''address already in use'')]\<rparr>)
   \<and> EvServerStart (Server 40123) \<in> set demoTrace
   \<and> serverStart envStartFails (Server 40123) = Some (ErrorString ''address already in use'')
   \<and> PanicError (ErrorString ''address already in use'')
       \<in> set (goPanics (demoBuiltWorld\<lparr>goPanics := [PanicError (ErrorString ''address already in use'')]\<rparr>))
   \<and> err demoBuilt = None"
proof -
  note h1 = startFailsBuild
  have h2: "trace (demoBuiltWorld\<lparr>goPanics := [PanicError (ErrorString ''address already in use'')]\<rparr>)
              = trace demoWorld @ demoTrace"
    by (simp add: demoWorld_def demoBuiltWorld_def)
  have h3: "EvServerStart (Server 40123) \<in> set demoTrace" by (simp add: demoTrace_def)
  have h4: "serverStart envStartFails (Server 40123) = Some (ErrorString ''address already in use'')"
    by (simp add: envStartFails_def)
  note t = start_failure_panics_other_failures_returned [OF h1 h2]
  from t have "\<forall>s e. EvServerStart s \<in> set demoTrace \<and> serverStart envStartFails s = Some e
      \<longrightarrow> PanicError e
            \<in> set (goPanics (demoBuiltWorld\<lparr>goPanics := [PanicError (ErrorString ''address already in use'')]\<rparr>))"
    by (rule conjunct1)
  with h3 h4 have p: "PanicError (ErrorString ''address already in use'')
       \<in> set (goPanics (demoBuiltWorld\<lparr>goPanics := [PanicError (ErrorString ''address already in use'')]\<rparr>))"
    by blast
  have e: "err demoBuilt = None" by (simp add: demoBuilt_def)
  from h1 h3 h4 p e show ?thesis by blast
qed

subsection \<open>Successful runs\<close>

lemma execs_append [simp]: "execs (a @ b) = execs a @ execs b"
  by (simp add: execs_def)

lemma execs_Nil [simp]: "execs [] = []"
  by (simp add: execs_def)

lemma execs_Cons [simp]: "execs (ev # t) = execOf ev @ execs t"
  by (simp add: execs_def)

lemma executeSQLStatements_ok:
  "executeSQLStatements env stmts w = (None, w') \<Longrightarrow> execs (trace w') = execs (trace w) @ stmts"
proof (induction stmts arbitrary: w)
  case Nil
  then show ?case by simp
next
  case (Cons stmt stmts)
  then show ?case by (auto split: option.splits)
qed

lemma stmtsLoop_ok:
  "stmtsLoop env xs w = (None, w') \<Longrightarrow>
     execs (trace w') = execs (trace w) @ concat (map (splitOf (splitSQLStatements env)) xs)
     \<and> (\<forall>x \<in> set xs. \<exists>ss. splitSQLStatements env x = Inr ss)"
proof (induction xs arbitrary: w)
  case Nil
  then show ?case by simp
next
  case (Cons x xs)
  from Cons.prems obtain ss w1 where ss: "splitSQLStatements env x = Inr ss"
      and ex: "executeSQLStatements env ss w = (None, w1)" and l: "stmtsLoop env xs w1 = (None, w')"
    by (auto split: sum.splits option.splits prod.splits)
  from executeSQLStatements_ok [OF ex] Cons.IH [OF l] ss show ?case
    by (simp add: splitOf_def)
qed

lemma filesLoop_ok:
  "filesLoop env xs w = (None, w') \<Longrightarrow>
     execs (trace w') = execs (trace w) @ concat (map (splitOf (splitSQLFile env)) xs)
     \<and> (\<forall>x \<in> set xs. \<exists>ss. splitSQLFile env x = Inr ss)"
proof (induction xs arbitrary: w)
  case Nil
  then show ?case by simp
next
  case (Cons x xs)
  from Cons.prems obtain ss w1 where ss: "splitSQLFile env x = Inr ss"
      and ex: "executeSQLStatements env ss (emit (EvSplitSQLFile x) w) = (None, w1)"
      and l: "filesLoop env xs w1 = (None, w')"
    by (auto split: sum.splits option.splits prod.splits)
  from executeSQLStatements_ok [OF ex] Cons.IH [OF l] ss show ?case
    by (simp add: splitOf_def)
qed

lemma initWithStmts_ok:
  assumes "initWithStmts env b w = (b', w')" and "err b = None" and "err b' = None"
  shows "b' = b
     \<and> execs (trace w') = execs (trace w) @ concat (map (splitOf (splitSQLStatements env)) (sqlStmts b))
     \<and> (\<forall>x \<in> set (sqlStmts b). \<exists>ss. splitSQLStatements env x = Inr ss)"
proof (cases "sqlStmts b = []")
  case True
  with assms show ?thesis by (simp add: initWithStmts_def)
next
  case False
  define w1 where "w1 = logPrint (''start to init data with sql stmts, count = '' @ Itoa (int (length (sqlStmts b)))) w"
  obtain r w2 where l: "stmtsLoop env (sqlStmts b) w1 = (r, w2)"
    by (cases "stmtsLoop env (sqlStmts b) w1")
  from assms False l have r: "r = None"
    by (cases r) (auto simp: initWithStmts_def Let_def w1_def)
  with assms False l have b: "b' = b"
    and w: "w' = logPrint (''init data with sql stmts successfully, count = '' @ Itoa (int (length (sqlStmts b)))) w2"
    by (auto simp: initWithStmts_def Let_def w1_def)
  from stmtsLoop_ok [OF l [unfolded r]] b w show ?thesis
    by (simp add: w1_def)
qed

lemma initWithFiles_ok:
  assumes "initWithFiles env b w = (b', w')" and "err b = None" and "err b' = None"
  shows "b' = b
     \<and> execs (trace w') = execs (trace w) @ concat (map (splitOf (splitSQLFile env)) (sqlFiles b))
     \<and> (\<forall>x \<in> set (sqlFiles b). \<exists>ss. splitSQLFile env x = Inr ss)"
proof (cases "sqlFiles b = []")
  case True
  with assms show ?thesis by (simp add: initWithFiles_def)
next
  case False
  define w1 where "w1 = logPrint (''start to init data with sql files, count = '' @ Itoa (int (length (sqlFiles b)))) w"
  obtain r w2 where l: "filesLoop env (sqlFiles b) w1 = (r, w2)"
    by (cases "filesLoop env (sqlFiles b) w1")
  from assms False l have r: "r = None"
    by (cases r) (auto simp: initWithFiles_def Let_def w1_def)
  with assms False l have b: "b' = b"
    and w: "w' = logPrint (''init data with sql files successfully, count = '' @ Itoa (int (length (sqlFiles b)))) w2"
    by (auto simp: initWithFiles_def Let_def w1_def)
  from filesLoop_ok [OF l [unfolded r]] b w show ?thesis
    by (simp add: w1_def)
qed

lemma createMySQLClient_ok:
  assumes "createMySQLClient env p name w = ((x, d, None), w1)"
  shows "x = Some (SqlxDB (''root:@tcp(127.0.0.1:'' @ Itoa p @ '')/'' @ name))
       \<and> d = Some (SqlDB (''root:@tcp(127.0.0.1:'' @ Itoa p @ '')/'' @ name))
       \<and> execs (trace w1) = execs (trace w)"
  using assms by (auto simp: createMySQLClient_def Let_def split: option.splits)

lemma buildClient_fields:
  assumes "buildClient env b w = (r, b', w')"
  shows "port b' = port b \<and> server b' = server b \<and> dbName b' = dbName b
       \<and> sqlStmts b' = sqlStmts b \<and> sqlFiles b' = sqlFiles b"
proof -
  obtain x d eo w1 where c: "createMySQLClient env (port b) (dbName b) w = ((x, d, eo), w1)"
    by (metis prod.exhaust)
  show ?thesis
  proof (cases eo)
    case (Some e)
    with assms c show ?thesis by (auto simp: buildClient_def Let_def)
  next
    case None
    obtain b2 w2 where s: "initWithStmts env (b\<lparr>sqlxDB := x, sqlDB := d\<rparr>) w1 = (b2, w2)"
      by (cases "initWithStmts env (b\<lparr>sqlxDB := x, sqlDB := d\<rparr>) w1")
    obtain b3 w3 where f: "initWithFiles env b2 w2 = (b3, w3)"
      by (cases "initWithFiles env b2 w2")
    from assms c None s f have "b' = b3" by (auto simp: buildClient_def Let_def split: option.splits)
    with initWithStmts_builder [OF s] initWithFiles_builder [OF f] show ?thesis by auto
  qed
qed

lemma buildClient_ok:
  assumes "buildClient env b w = (Inr h, b', w')"
  shows "b' = b\<lparr>sqlxDB := Some (SqlxDB (''root:@tcp(127.0.0.1:'' @ Itoa (port b) @ '')/'' @ dbName b)),
                 sqlDB := Some (SqlDB (''root:@tcp(127.0.0.1:'' @ Itoa (port b) @ '')/'' @ dbName b))\<rparr>
       \<and> h = (sqlxDB b', sqlDB b', server b')
       \<and> execs (trace w') = execs (trace w)
            @ concat (map (splitOf (splitSQLStatements env)) (sqlStmts b))
            @ concat (map (splitOf (splitSQLFile env)) (sqlFiles b))
       \<and> (\<forall>x \<in> set (sqlStmts b). \<exists>ss. splitSQLStatements env x = Inr ss)
       \<and> (\<forall>x \<in> set (sqlFiles b). \<exists>ss. splitSQLFile env x = Inr ss)"
proof -
  obtain x d eo w1 where c: "createMySQLClient env (port b) (dbName b) w = ((x, d, eo), w1)"
    by (metis prod.exhaust)
  from assms c have eo: "eo = None" by (cases eo) (auto simp: buildClient_def Let_def)
  define b1 where "b1 = b\<lparr>sqlxDB := x, sqlDB := d\<rparr>"
  obtain b2 w2 where s: "initWithStmts env b1 w1 = (b2, w2)" by (cases "initWithStmts env b1 w1")
  obtain b3 w3 where f: "initWithFiles env b2 w2 = (b3, w3)" by (cases "initWithFiles env b2 w2")
  from assms c eo s f have r: "b' = b3" "w' = w3" "err b3 = None" "h = (sqlxDB b3, sqlDB b3, server b3)"
    by (auto simp: buildClient_def Let_def b1_def split: option.splits)
  from initWithFiles_builder [OF f] r(3) have b32: "b3 = b2" by auto
  with r(3) have e2: "err b2 = None" by simp
  with initWithStmts_builder [OF s] have b21: "b2 = b1" by auto
  with e2 have e1: "err b1 = None" by simp
  note cl = createMySQLClient_ok [OF c [unfolded eo]]
  note st = initWithStmts_ok [OF s e1 e2]
  note fi = initWithFiles_ok [OF f e2 r(3)]
  from cl st fi r b32 b21 show ?thesis by (simp add: b1_def)
qed

lemma buildServer_trace:
  assumes "buildServer env b w = (r, b', w')" and "err b = None"
  shows "\<exists>rest. trace w' = trace w
            @ EvNewServer (dbName b) \<lparr>Protocol = ''tcp'', Address = ''127.0.0.1:'' @ Itoa (port b)\<rparr> # rest"
    and "port b' = port b"
proof -
  obtain b1 w1 where i: "initServer env b w = (b1, w1)" by (cases "initServer env b w")
  define config where "config = \<lparr>Protocol = ''tcp'', Address = ''127.0.0.1:'' @ Itoa (port b)\<rparr>"
  from initServer_cases [OF i assms(2)]
  have w1: "w1 = emit (EvNewServer (dbName b) config) w"
    and b1: "case NewServer env (dbName b) config of
             Inl e \<Rightarrow> b1 = b\<lparr>server := None, err := Some (Errorf ''failed to create server: '' e)\<rparr>
           | Inr s \<Rightarrow> b1 = b\<lparr>server := Some s, err := None\<rparr>"
    unfolding config_def by simp_all
  have "(\<exists>rest. trace w' = trace w @ EvNewServer (dbName b) config # rest) \<and> port b' = port b"
  proof (cases "NewServer env (dbName b) config")
    case (Inl e)
    with b1 have "err b1 = Some (Errorf ''failed to create server: '' e)" and "port b1 = port b" by simp_all
    with assms i have "b' = b1" and "w' = w1" by (auto simp: buildServer_def)
    with w1 \<open>port b1 = port b\<close> show ?thesis by simp
  next
    case (Inr s)
    with b1 have e: "err b1 = None" and p: "port b1 = port b" by simp_all
    define w2 where "w2 = logPrint (''start go mysql mocker server, listening at 127.0.0.1:'' @ Itoa (port b1)) w1"
    from assms i e have c: "buildClient env b1 (goStart env b1 w2) = (r, b', w')"
      by (simp add: buildServer_def Let_def w2_def)
    from buildClient_extends [OF c] obtain new where "trace w' = trace (goStart env b1 w2) @ new"
      unfolding extends_def by blast
    moreover have "trace (goStart env b1 w2) = trace w2 @ (case server b1 of None \<Rightarrow> [] | Some s \<Rightarrow> [EvServerStart s])"
      by (simp add: goStart_def split: option.splits)
    ultimately have "\<exists>rest. trace w' = trace w @ EvNewServer (dbName b) config # rest"
      by (simp add: w2_def w1)
    with buildClient_fields [OF c] p show ?thesis by simp
  qed
  then show "\<exists>rest. trace w' = trace w
            @ EvNewServer (dbName b) \<lparr>Protocol = ''tcp'', Address = ''127.0.0.1:'' @ Itoa (port b)\<rparr> # rest"
    and "port b' = port b"
    unfolding config_def by simp_all
qed

lemma buildServer_ok:
  assumes "buildServer env b w = (Inr h, b', w')"
  shows "\<exists>s. NewServer env (dbName b) \<lparr>Protocol = ''tcp'', Address = ''127.0.0.1:'' @ Itoa (port b)\<rparr> = Inr s
       \<and> b' = b\<lparr>server := Some s, err := None,
                 sqlxDB := Some (SqlxDB (''root:@tcp(127.0.0.1:'' @ Itoa (port b) @ '')/'' @ dbName b)),
                 sqlDB := Some (SqlDB (''root:@tcp(127.0.0.1:'' @ Itoa (port b) @ '')/'' @ dbName b))\<rparr>
       \<and> h = (sqlxDB b', sqlDB b', Some s)
       \<and> execs (trace w') = execs (trace w)
            @ concat (map (splitOf (splitSQLStatements env)) (sqlStmts b))
            @ concat (map (splitOf (splitSQLFile env)) (sqlFiles b))
       \<and> (\<forall>x \<in> set (sqlStmts b). \<exists>ss. splitSQLStatements env x = Inr ss)
       \<and> (\<forall>x \<in> set (sqlFiles b). \<exists>ss. splitSQLFile env x = Inr ss)"
proof -
  have e0: "err b = None"
  proof (cases "err b")
    case (Some e)
    with assms show ?thesis by (simp add: buildServer_def initServer_def)
  qed simp
  obtain b1 w1 where i: "initServer env b w = (b1, w1)" by (cases "initServer env b w")
  define config where "config = \<lparr>Protocol = ''tcp'', Address = ''127.0.0.1:'' @ Itoa (port b)\<rparr>"
  from initServer_cases [OF i e0]
  have w1: "w1 = emit (EvNewServer (dbName b) config) w"
    and b1: "case NewServer env (dbName b) config of
             Inl e \<Rightarrow> b1 = b\<lparr>server := None, err := Some (Errorf ''failed to create server: '' e)\<rparr>
           | Inr s \<Rightarrow> b1 = b\<lparr>server := Some s, err := None\<rparr>"
    unfolding config_def by simp_all
  show ?thesis
  proof (cases "NewServer env (dbName b) config")
    case (Inl e)
    with b1 have "err b1 = Some (Errorf ''failed to create server: '' e)" by simp
    with assms i show ?thesis by (simp add: buildServer_def)
  next
    case (Inr s)
    with b1 have b1': "b1 = b\<lparr>server := Some s, err := None\<rparr>" by simp
    define w2 where "w2 = logPrint (''start go mysql mocker server, listening at 127.0.0.1:'' @ Itoa (port b1)) w1"
    from assms i b1' have c: "buildClient env b1 (goStart env b1 w2) = (Inr h, b', w')"
      by (simp add: buildServer_def Let_def w2_def)
    have t: "execs (trace (goStart env b1 w2)) = execs (trace w)"
      using b1' by (simp add: goStart_def w2_def w1 split: option.splits)
    from buildClient_ok [OF c] t b1' Inr show ?thesis
      unfolding config_def by simp
  qed
qed

lemma Build_ok:
  assumes "Build env b w = (Inr h, b', w')"
  shows "execs (trace w') = execs (trace w)
            @ concat (map (splitOf (splitSQLStatements env)) (sqlStmts b))
            @ concat (map (splitOf (splitSQLFile env)) (sqlFiles b))
       \<and> (\<forall>x \<in> set (sqlStmts b). \<exists>ss. splitSQLStatements env x = Inr ss)
       \<and> (\<forall>x \<in> set (sqlFiles b). \<exists>ss. splitSQLFile env x = Inr ss)
       \<and> sqlStmts b' = sqlStmts b \<and> sqlFiles b' = sqlFiles b
       \<and> (\<exists>s. server b' = Some s \<and> h = (sqlxDB b', sqlDB b', Some s))"
proof -
  have nb: "\<not> (err b \<noteq> None \<or> started b)"
  proof
    assume "err b \<noteq> None \<or> started b"
    from Build_blocked [OF this, of env w] assms show False by auto
  qed
  then have e: "err b = None" and s: "\<not> started b" by simp_all
  show ?thesis
  proof (cases "port b = 0")
    case True
    show ?thesis
    proof (cases "getFreePort env")
      case (ProbeErr p e')
      with assms e s True show ?thesis by (auto simp: Build_def CompareAndSwap_def)
    next
      case (ProbeOk l p)
      with assms e s True have "buildServer env (b\<lparr>started := True, port := p, err := None\<rparr>)
          (emit (EvListenerClose l) (emit EvGetFreePort w)) = (Inr h, b', w')"
        by (simp add: Build_def CompareAndSwap_def)
      from buildServer_ok [OF this] show ?thesis by auto
    qed
  next
    case False
    with assms e s have "buildServer env (b\<lparr>started := True\<rparr>) w = (Inr h, b', w')"
      by (simp add: Build_def CompareAndSwap_def)
    from buildServer_ok [OF this] show ?thesis by auto
  qed
qed

text \<open>
  Claim C4. After a successful \<open>Build\<close> the statements executed by it are, in this order:
  for each registered literal string, in registration order, the statements it splits
  into; then for each registered file, in registration order, the statements its contents
  split into. Every split succeeded, and every statement that comes from a literal is
  executed before any statement that comes from a file.
\<close>

theorem seeding_order:
  assumes "Build env b w = (Inr h, b', w')"
  shows "execs (trace w') = execs (trace w)
            @ concat (map (splitOf (splitSQLStatements env)) (sqlStmts b))
            @ concat (map (splitOf (splitSQLFile env)) (sqlFiles b))
       \<and> (\<forall>x \<in> set (sqlStmts b). \<exists>ss. splitSQLStatements env x = Inr ss)
       \<and> (\<forall>x \<in> set (sqlFiles b). \<exists>ss. splitSQLFile env x = Inr ss)"
  using Build_ok [OF assms] by simp

theorem seeding_order_witness:
  "Build envDemo demoBuilder demoWorld
     = (Inr (sqlxDB demoBuilt, sqlDB demoBuilt, server demoBuilt), demoBuilt, demoBuiltWorld)
   \<and> execs (trace demoBuiltWorld)
       = [''INSERT INTO t VALUES (1);'', ''INSERT INTO t VALUES (2);'',
          ''INSERT INTO t VALUES (3);'', ''INSERT INTO t VALUES (4);'']"
proof -
  note h = demoBuild
  from seeding_order [OF h] h show ?thesis
    by (simp add: demoBuiltWorld_def demoTrace_def)
qed

text \<open>
  Claim C6. A \<open>Build\<close> that passes both gates on a builder whose port field is 0 first
  calls \<open>getFreePort\<close>. When the probe yields a listener and a port \<open>p\<close>, the next call
  closes that listener, and only then is the server constructed, for the address
  127.0.0.1:\<open>p\<close>; \<open>p\<close> is recorded in the port field. With \<open>p\<close> a real port (not 0),
  \<open>GetPort\<close> afterwards returns \<open>p\<close>, the port the server was configured to bind, and a
  successful \<open>Build\<close> hands back that server in its shutdown closure.
\<close>

theorem auto_port:
  assumes "err b = None" and "\<not> started b" and "port b = 0" and "Build env b w = (r, b', w')"
  shows "(\<exists>rest. trace w' = trace w @ EvGetFreePort # rest)
       \<and> (\<forall>l p. getFreePort env = ProbeOk l p \<longrightarrow>
            (\<exists>rest. trace w' = trace w @ EvGetFreePort # EvListenerClose l
                 # EvNewServer (dbName b) \<lparr>Protocol = ''tcp'', Address = ''127.0.0.1:'' @ Itoa p\<rparr> # rest)
            \<and> port b' = p
            \<and> (p \<noteq> 0 \<longrightarrow> GetPort b' = Inr p)
            \<and> (\<forall>h. r = Inr h \<longrightarrow>
                 (\<exists>s. NewServer env (dbName b) \<lparr>Protocol = ''tcp'', Address = ''127.0.0.1:'' @ Itoa p\<rparr> = Inr s
                      \<and> server b' = Some s \<and> h = (sqlxDB b', sqlDB b', Some s))))"
proof (cases "getFreePort env")
  case (ProbeErr p e)
  with assms have "w' = emit EvGetFreePort w" by (auto simp: Build_def CompareAndSwap_def)
  with ProbeErr show ?thesis by simp
next
  case (ProbeOk l p)
  define b1 where "b1 = b\<lparr>started := True, port := p, err := None\<rparr>"
  define w1 where "w1 = emit (EvListenerClose l) (emit EvGetFreePort w)"
  from ProbeOk assms have bs: "buildServer env b1 w1 = (r, b', w')"
    by (simp add: Build_def CompareAndSwap_def b1_def w1_def)
  have e1: "err b1 = None" by (simp add: b1_def)
  from buildServer_trace [OF bs e1]
  obtain rest where t: "trace w' = trace w1 @ EvNewServer (dbName b1) \<lparr>Protocol = ''tcp'', Address = ''127.0.0.1:'' @ Itoa (port b1)\<rparr> # rest"
    and p: "port b' = port b1" by blast
  from t have t': "trace w' = trace w @ EvGetFreePort # EvListenerClose l
                 # EvNewServer (dbName b) \<lparr>Protocol = ''tcp'', Address = ''127.0.0.1:'' @ Itoa p\<rparr> # rest"
    by (simp add: w1_def b1_def)
  from p have p': "port b' = p" by (simp add: b1_def)
  have g: "p \<noteq> 0 \<longrightarrow> GetPort b' = Inr p" using p' by (simp add: GetPort_def)
  have h: "\<forall>h. r = Inr h \<longrightarrow>
                 (\<exists>s. NewServer env (dbName b) \<lparr>Protocol = ''tcp'', Address = ''127.0.0.1:'' @ Itoa p\<rparr> = Inr s
                      \<and> server b' = Some s \<and> h = (sqlxDB b', sqlDB b', Some s))"
  proof (intro allI impI)
    fix h assume "r = Inr h"
    with bs have "buildServer env b1 w1 = (Inr h, b', w')" by simp
    from buildServer_ok [OF this]
    show "\<exists>s. NewServer env (dbName b) \<lparr>Protocol = ''tcp'', Address = ''127.0.0.1:'' @ Itoa p\<rparr> = Inr s
                      \<and> server b' = Some s \<and> h = (sqlxDB b', sqlDB b', Some s)"
      by (auto simp: b1_def)
  qed
  from t' p' g h ProbeOk show ?thesis by auto
qed

theorem auto_port_witness:
  "err demoBuilder = None \<and> \<not> started demoBuilder \<and> port demoBuilder = 0
   \<and> getFreePort envDemo = ProbeOk 7 40123
   \<and> Build envDemo demoBuilder demoWorld
       = (Inr (sqlxDB demoBuilt, sqlDB demoBuilt, server demoBuilt), demoBuilt, demoBuiltWorld)
   \<and> take 3 (trace demoBuiltWorld)
       = [EvGetFreePort, EvListenerClose 7,
          EvNewServer ''shop'' \<lparr>Protocol = ''tcp'', Address = ''127.0.0.1:40123''\<rparr>]
   \<and> port demoBuilt = 40123 \<and> GetPort demoBuilt = Inr 40123"
proof -
  have h1: "err demoBuilder = None" and h2: "\<not> started demoBuilder" and h3: "port demoBuilder = 0"
    by (simp_all add: demoBuilder_eq)
  note h4 = demoBuild
  have h5: "getFreePort envDemo = ProbeOk 7 40123" by (simp add: envDemo_def)
  from auto_port [OF h1 h2 h3 h4] h1 h2 h3 h4 h5 show ?thesis
    by (simp add: demoBuiltWorld_def demoTrace_def demoBuilt_def GetPort_def)
qed

subsection \<open>GetPort before and after Build\<close>

lemma Build_port_kept:
  assumes "Build env b w = (r, b', w')" and "port b \<noteq> 0"
  shows "port b' = port b"
proof (cases "err b \<noteq> None \<or> started b")
  case True
  from Build_blocked [OF this, of env w] assms(1) show ?thesis by auto
next
  case False
  with assms have bs: "buildServer env (b\<lparr>started := True\<rparr>) w = (r, b', w')"
    by (simp add: Build_def CompareAndSwap_def)
  from False have "err (b\<lparr>started := True\<rparr>) = None" by simp
  from buildServer_trace(2) [OF bs this] show ?thesis by simp
qed

text \<open>
  Claim C8, as amended. \<open>GetPort\<close> panics with a nil dereference exactly when the port
  field is 0 and the server is nil, and returns a value exactly when the port field is not
  0 or the server has been assigned. A builder that has only been configured has a nil
  server, so it panics as long as its port field is 0; \<open>SQLStmts\<close> and \<open>SQLFiles\<close> do not
  change what \<open>GetPort\<close> does. A \<open>Build\<close> stopped at a gate leaves the builder as it is. A
  \<open>Build\<close> that passes the gates with port field 0 records the port reported by
  \<open>getFreePort\<close> before it constructs the server: after a failed probe the server is as
  before, and after a probe that yields a port \<open>p\<close> other than 0 \<open>GetPort\<close> returns \<open>p\<close>,
  also when \<open>Build\<close> fails later and the server is still nil. A non-zero port field is
  kept by \<open>Build\<close>, and after a successful \<open>Build\<close> \<open>GetPort\<close> returns a value.
\<close>

theorem GetPort_safety:
  assumes "Build env b w = (r, b', w')"
  shows "(GetPort b = Inl NilDereference \<longleftrightarrow> port b = 0 \<and> server b = None)
       \<and> ((\<exists>v. GetPort b = Inr v) \<longleftrightarrow> port b \<noteq> 0 \<or> server b \<noteq> None)
       \<and> (port (configure (Builder uuid db) calls) = 0 \<longrightarrow>
            GetPort (configure (Builder uuid db) calls) = Inl NilDereference)
       \<and> GetPort (SQLStmts b stmts) = GetPort b \<and> GetPort (SQLFiles env0 b files) = GetPort b
       \<and> (err b \<noteq> None \<or> started b \<longrightarrow> b' = b)
       \<and> (port b \<noteq> 0 \<longrightarrow> GetPort b' = Inr (port b))
       \<and> (err b = None \<and> \<not> started b \<and> port b = 0 \<longrightarrow>
            (\<forall>p e. getFreePort env = ProbeErr p e \<longrightarrow> port b' = p \<and> server b' = server b)
            \<and> (\<forall>l p. getFreePort env = ProbeOk l p \<longrightarrow>
                  port b' = p \<and> (p \<noteq> 0 \<longrightarrow> GetPort b' = Inr p)))
       \<and> (\<forall>h. r = Inr h \<longrightarrow> (\<exists>v. GetPort b' = Inr v))"
proof -
  have 1: "GetPort b = Inl NilDereference \<longleftrightarrow> port b = 0 \<and> server b = None"
    by (auto simp: GetPort_def split: option.splits)
  have 2: "(\<exists>v. GetPort b = Inr v) \<longleftrightarrow> port b \<noteq> 0 \<or> server b \<noteq> None"
    by (auto simp: GetPort_def split: option.splits)
  have 3: "port (configure (Builder uuid db) calls) = 0 \<longrightarrow>
            GetPort (configure (Builder uuid db) calls) = Inl NilDereference"
    by (simp add: GetPort_def configure_server Builder_server)
  have 4: "GetPort (SQLStmts b stmts) = GetPort b \<and> GetPort (SQLFiles env0 b files) = GetPort b"
    by (simp add: GetPort_def SQLStmts_def SQLFiles_def split: option.splits)
  have 5: "err b \<noteq> None \<or> started b \<longrightarrow> b' = b"
  proof
    assume "err b \<noteq> None \<or> started b"
    from Build_blocked [OF this, of env w] assms show "b' = b" by auto
  qed
  have 6: "port b \<noteq> 0 \<longrightarrow> GetPort b' = Inr (port b)"
  proof
    assume p: "port b \<noteq> 0"
    from Build_port_kept [OF assms p] p show "GetPort b' = Inr (port b)" by (simp add: GetPort_def)
  qed
  have 7: "err b = None \<and> \<not> started b \<and> port b = 0 \<longrightarrow>
            (\<forall>p e. getFreePort env = ProbeErr p e \<longrightarrow> port b' = p \<and> server b' = server b)
            \<and> (\<forall>l p. getFreePort env = ProbeOk l p \<longrightarrow>
                  port b' = p \<and> (p \<noteq> 0 \<longrightarrow> GetPort b' = Inr p))"
  proof (intro impI conjI allI)
    fix p e
    assume g: "err b = None \<and> \<not> started b \<and> port b = 0" and f: "getFreePort env = ProbeErr p e"
    with assms have "b' = b\<lparr>started := True, port := p, err := Some e\<rparr>"
      by (auto simp: Build_def CompareAndSwap_def)
    then show "port b' = p" and "server b' = server b" by simp_all
  next
    fix l p
    assume g: "err b = None \<and> \<not> started b \<and> port b = 0" and f: "getFreePort env = ProbeOk l p"
    with assms have bs: "buildServer env (b\<lparr>started := True, port := p, err := None\<rparr>)
        (emit (EvListenerClose l) (emit EvGetFreePort w)) = (r, b', w')"
      by (simp add: Build_def CompareAndSwap_def)
    have "err (b\<lparr>started := True, port := p, err := None\<rparr>) = None" by simp
    from buildServer_trace(2) [OF bs this] show p': "port b' = p" by simp
    assume "p \<noteq> 0"
    with p' show "GetPort b' = Inr p" by (simp add: GetPort_def)
  qed
  have 8: "\<forall>h. r = Inr h \<longrightarrow> (\<exists>v. GetPort b' = Inr v)"
  proof (intro allI impI)
    fix h assume "r = Inr h"
    with assms have "Build env b w = (Inr h, b', w')" by simp
    from Build_ok [OF this] obtain s where "server b' = Some s" by blast
    then show "\<exists>v. GetPort b' = Inr v" by (simp add: GetPort_def)
  qed
  from 1 2 3 4 5 6 7 8 show ?thesis by blast
qed

theorem GetPort_safety_witness:
  "Build envNoServer demoBuilder demoWorld = (Inl noServerError, noServerBuilt, noServerWorld)
   \<and> err demoBuilder = None \<and> \<not> started demoBuilder \<and> port demoBuilder = 0
   \<and> GetPort demoBuilder = Inl NilDereference
   \<and> getFreePort envNoServer = ProbeOk 7 40123
   \<and> server noServerBuilt = None \<and> port noServerBuilt = 40123
   \<and> GetPort noServerBuilt = Inr 40123"
proof -
  note h = noServerBuild
  have g: "err demoBuilder = None \<and> \<not> started demoBuilder \<and> port demoBuilder = 0"
    by (simp add: demoBuilder_eq)
  have f: "getFreePort envNoServer = ProbeOk 7 40123" by (simp add: envNoServer_def envDemo_def)
  have n: "(40123::int) \<noteq> 0" by simp
  note t = GetPort_safety [OF h, of "''9f1c2ab4-7d3e-4c55-8a10-52e6b1f0c9aa''" "[''shop'']" "[]"
             "[]" envDemo "[]"]
  from t have "err demoBuilder = None \<and> \<not> started demoBuilder \<and> port demoBuilder = 0 \<longrightarrow>
            (\<forall>l p. getFreePort envNoServer = ProbeOk l p \<longrightarrow>
                  port noServerBuilt = p \<and> (p \<noteq> 0 \<longrightarrow> GetPort noServerBuilt = Inr p))"
    by blast
  with g f n have a: "port noServerBuilt = 40123 \<and> GetPort noServerBuilt = Inr 40123" by blast
  have s: "server noServerBuilt = None" by (simp add: noServerBuilt_def)
  have d: "GetPort demoBuilder = Inl NilDereference" by (simp add: demoBuilder_eq GetPort_def)
  from h g f a s d show ?thesis by blast
qed

text \<open>
  Claim C8 as stated fails: a builder on which \<open>Port\<close> was never called, after a \<open>Build\<close>
  whose probe succeeds and whose server construction fails, has a nil server and no
  successful \<open>Build\<close> behind it, and \<open>GetPort\<close> returns the probed port instead of
  panicking.
\<close>

theorem GetPort_after_failed_Build_counterexample:
  "demoBuilder = SQLFiles envDemo
       (SQLStmts (Builder ''9f1c2ab4-7d3e-4c55-8a10-52e6b1f0c9aa'' [''shop''])
          [''INSERT INTO t VALUES (1);'', ''INSERT INTO t VALUES (2);''])
       [''seed.sql'']
   \<and> port demoBuilder = 0
   \<and> Build envNoServer demoBuilder demoWorld = (Inl noServerError, noServerBuilt, noServerWorld)
   \<and> server noServerBuilt = None
   \<and> GetPort noServerBuilt = Inr 40123"
  using noServerBuild
  by (simp add: demoBuilder_def [symmetric] demoBuilder_eq noServerBuilt_def GetPort_def)

end
